theory Spec2Isabelle
  imports Complex_Main "HOL-Library.AList"
begin

section \<open>Data model of \<open>api/index.py\<close>\<close>

text \<open>
  The backend keeps all of its state in three PostgreSQL tables, \<open>users\<close>, \<open>sessions\<close> and
  \<open>bots\<close>. A table is a list of rows in table order; a statement without \<open>ORDER BY\<close> visits
  the rows in that order and \<open>fetchone\<close> takes the first row of a result.

  JSON values (the \<open>settings\<close> columns, the onboarding payload) are a datatype; a JSON object
  is an association list read through \<^const>\<open>map_of\<close>. Python floats are only stored and
  copied by this code (no arithmetic, no comparison), so they are carried as \<^typ>\<open>real\<close>.
  Timestamps are microseconds on one clock shared by the application and the database.
\<close>

datatype json =
    JNull
  | JBool bool
  | JNum real
  | JStr string
  | JArr "json list"
  | JObj "(string \<times> json) list"

type_synonym dict = "(string \<times> json) list"

type_synonym timestamp = int

text \<open>A \<open>uuid.uuid4()\<close> value, given by its 32 hexadecimal digits. The random source is an
  input of every operation that draws from it.\<close>

type_synonym uuid = string

definition uuid_hex :: "uuid \<Rightarrow> string" where
  "uuid_hex u = u"

definition uuid_str :: "uuid \<Rightarrow> string" where
  "uuid_str u =
     take 8 u @ ''-'' @ take 4 (drop 8 u) @ ''-'' @ take 4 (drop 12 u) @ ''-''
       @ take 4 (drop 16 u) @ ''-'' @ drop 20 u"

record user_row =
  user_id :: string
  email :: "string option"
  name :: "string option"
  picture :: "string option"
  onboarding_completed :: bool
  settings :: dict

record session_row =
  session_id :: string
  sess_user_id :: string
  session_token :: string
  expires_at :: timestamp

record bot_row =
  bot_id :: string
  bot_user_id :: string
  bot_name :: string
  strategy :: string
  trading_pair :: string
  exchange :: string
  initial_investment :: real
  current_value :: real
  is_virtual :: bool
  bot_settings :: dict
  status :: string
  created_at :: timestamp
  updated_at :: timestamp

record store =
  users :: "user_row list"
  sessions :: "session_row list"
  bots :: "bot_row list"

text \<open>\<open>class BotCreate(BaseModel)\<close>: four required fields and three with defaults. The
  constructor takes the optional fields as options and fills in the defaults of the class.\<close>

record BotCreate =
  bc_name :: string
  bc_strategy :: string
  bc_trading_pair :: string
  bc_exchange :: string
  bc_initial_investment :: real
  bc_is_virtual :: bool
  bc_settings :: dict

definition BotCreate_init ::
  "string \<Rightarrow> string \<Rightarrow> string \<Rightarrow> string \<Rightarrow> real option \<Rightarrow> bool option \<Rightarrow> dict option \<Rightarrow> BotCreate"
  where
  "BotCreate_init n s tp ex invest virt st =
     \<lparr> bc_name = n, bc_strategy = s, bc_trading_pair = tp, bc_exchange = ex,
       bc_initial_investment = (case invest of None \<Rightarrow> 1000 | Some x \<Rightarrow> x),
       bc_is_virtual = (case virt of None \<Rightarrow> True | Some b \<Rightarrow> b),
       bc_settings = (case st of None \<Rightarrow> [] | Some d \<Rightarrow> d) \<rparr>"

text \<open>\<open>class BotUpdate(BaseModel)\<close>: every field is \<open>Optional\<close> with default \<open>None\<close>.\<close>

record BotUpdate =
  bu_name :: "string option"
  bu_status :: "string option"
  bu_settings :: "dict option"

text \<open>The part of a \<open>Request\<close> the handlers read: its cookies and its headers.\<close>

record request =
  cookies :: "string \<rightharpoonup> string"
  headers :: "string \<rightharpoonup> string"

datatype http_error = HTTPException nat string

section \<open>The SQL statements\<close>

text \<open>A comparison with \<open>NULL\<close> is never true in SQL.\<close>

definition sql_eq :: "'a option \<Rightarrow> 'a option \<Rightarrow> bool" where
  "sql_eq a b = (case a of None \<Rightarrow> False | Some x \<Rightarrow> (case b of None \<Rightarrow> False | Some y \<Rightarrow> x = y))"

definition sql_select :: "('r \<Rightarrow> bool) \<Rightarrow> 'r list \<Rightarrow> 'r list" where
  "sql_select P t = filter P t"

definition sql_insert :: "'r \<Rightarrow> 'r list \<Rightarrow> 'r list" where
  "sql_insert r t = t @ [r]"

text \<open>\<open>UPDATE ... WHERE P RETURNING *\<close>: the new table and the updated rows.\<close>

definition sql_update :: "('r \<Rightarrow> bool) \<Rightarrow> ('r \<Rightarrow> 'r) \<Rightarrow> 'r list \<Rightarrow> 'r list \<times> 'r list" where
  "sql_update P f t = (map (\<lambda>r. if P r then f r else r) t, map f (filter P t))"

text \<open>\<open>DELETE ... WHERE P RETURNING ...\<close>: the new table and the deleted rows.\<close>

definition sql_delete :: "('r \<Rightarrow> bool) \<Rightarrow> 'r list \<Rightarrow> 'r list \<times> 'r list" where
  "sql_delete P t = (filter (\<lambda>r. \<not> P r) t, filter P t)"

definition fetchone :: "'r list \<Rightarrow> 'r option" where
  "fetchone rows = (case rows of [] \<Rightarrow> None | r # _ \<Rightarrow> Some r)"

text \<open>The \<open>jsonb\<close> operator \<open>||\<close> on two objects: the keys of the right operand are set in the
  left one.\<close>

definition jsonb_concat :: "dict \<Rightarrow> dict \<Rightarrow> dict" where
  "jsonb_concat l r = AList.merge l r"

section \<open>Session token extraction and the current user\<close>

text \<open>\<open>str.split(" ")\<close>: the pieces between single spaces, empty pieces included.\<close>

fun split_space :: "string \<Rightarrow> string list" where
  "split_space [] = [[]]"
| "split_space (c # cs) =
     (if c = CHR '' '' then [] # split_space cs
      else (case split_space cs of [] \<Rightarrow> [[c]] | w # ws \<Rightarrow> (c # w) # ws))"

definition startswith :: "string \<Rightarrow> string \<Rightarrow> bool" where
  "startswith s p = (take (length p) s = p)"

definition get_session_token :: "request \<Rightarrow> string option" where
  "get_session_token req =
     (let token = cookies req ''session_token'' in
      if token \<noteq> None \<and> token \<noteq> Some [] then token
      else
        (case headers req ''Authorization'' of
           None \<Rightarrow> None
         | Some auth_header \<Rightarrow>
             if auth_header \<noteq> [] \<and> startswith auth_header ''Bearer ''
             then Some (split_space auth_header ! 1)
             else None))"

text \<open>The join of \<open>get_current_user\<close>:
  \<open>SELECT u.* FROM users u JOIN sessions s ON u.user_id = s.user_id
    WHERE s.session_token = %s AND s.expires_at > NOW()\<close>.\<close>

definition session_users :: "store \<Rightarrow> timestamp \<Rightarrow> string \<Rightarrow> user_row list" where
  "session_users db now token =
     [u. u \<leftarrow> users db, s \<leftarrow> sessions db,
         user_id u = sess_user_id s \<and> session_token s = token \<and> expires_at s > now]"

definition get_current_user :: "store \<Rightarrow> timestamp \<Rightarrow> request \<Rightarrow> http_error + user_row" where
  "get_current_user db now req =
     (case get_session_token req of
        None \<Rightarrow> Inl (HTTPException 401 ''Not authenticated'')
      | Some token \<Rightarrow>
          if token = [] then Inl (HTTPException 401 ''Not authenticated'')
          else
            (case fetchone (session_users db now token) of
               None \<Rightarrow> Inl (HTTPException 401 ''Invalid or expired session'')
             | Some user \<Rightarrow> Inr user))"

section \<open>Authentication routes\<close>

text \<open>The identity exchange is an external service: the handler is given its answer as a
  function of the external session id. \<open>ExchangeResponse c d\<close> is a response with status code
  \<open>c\<close> whose JSON body holds \<open>d\<close>; \<open>ExchangeUnreachable\<close> is a transport failure or a timeout,
  an exception the handler does not catch.\<close>

record auth_data =
  ad_email :: "string option"
  ad_name :: "string option"
  ad_picture :: "string option"

datatype exchange_result = ExchangeUnreachable | ExchangeResponse nat auth_data

record user_public =
  up_user_id :: string
  up_email :: "string option"
  up_name :: "string option"
  up_picture :: "string option"
  up_onboarding_completed :: bool

record cookie =
  ck_key :: string
  ck_value :: string
  ck_httponly :: bool
  ck_secure :: bool
  ck_samesite :: string
  ck_path :: string
  ck_max_age :: nat

record session_response =
  sr_user :: user_public
  sr_session_token :: string
  sr_set_cookie :: cookie

definition public_user :: "user_row \<Rightarrow> user_public" where
  "public_user u =
     \<lparr> up_user_id = user_id u, up_email = email u, up_name = name u,
       up_picture = picture u, up_onboarding_completed = onboarding_completed u \<rparr>"

definition test_auth_data :: auth_data where
  "test_auth_data =
     \<lparr> ad_email = Some ''test@tensorx.com'', ad_name = Some ''Test User'',
       ad_picture = Some ''https://ui-avatars.com/api/?name=Test+User&background=06b6d4&color=fff'' \<rparr>"

text \<open>Lines 85 to 108 of \<open>create_session\<close>: the sentinel id, or the exchange.\<close>

definition resolve_identity :: "(string \<Rightarrow> exchange_result) \<Rightarrow> string \<Rightarrow> http_error + auth_data" where
  "resolve_identity exch sid =
     (if sid = ''test_session_id'' then Inr test_auth_data
      else
        (case exch sid of
           ExchangeUnreachable \<Rightarrow> Inl (HTTPException 500 ''Internal Server Error'')
         | ExchangeResponse code d \<Rightarrow>
             if code \<noteq> 200 then Inl (HTTPException 401 ''Invalid session_id'') else Inr d))"

text \<open>Modelled from the spec: the \<open>CREATE TABLE\<close> statements are not part of the source, so
  the values of the columns an \<open>INSERT\<close> leaves out come from the data model of the spec:
  a new user has \<open>onboarding_completed\<close> false and an empty \<open>settings\<close> mapping.\<close>

definition new_user_row :: "string \<Rightarrow> auth_data \<Rightarrow> user_row" where
  "new_user_row uid d =
     \<lparr> user_id = uid, email = ad_email d, name = ad_name d, picture = ad_picture d,
       onboarding_completed = False, settings = [] \<rparr>"

text \<open>Lines 114 to 133: find the user by email and update it, or insert a new one. The
  result is the new table and the row that \<open>RETURNING *\<close> gives first.\<close>

definition upsert_user :: "uuid \<Rightarrow> auth_data \<Rightarrow> user_row list \<Rightarrow> user_row list \<times> user_row" where
  "upsert_user u1 d t =
     (case fetchone (sql_select (\<lambda>u. sql_eq (email u) (ad_email d)) t) of
        Some found \<Rightarrow>
          (fst (sql_update (\<lambda>u. sql_eq (email u) (ad_email d))
                  (\<lambda>u. u\<lparr>name := ad_name d, picture := ad_picture d\<rparr>) t),
           found\<lparr>name := ad_name d, picture := ad_picture d\<rparr>)
      | None \<Rightarrow>
          (let new = new_user_row (''user_'' @ take 12 (uuid_hex u1)) d
           in (sql_insert new t, new)))"

definition seven_days :: int where
  "seven_days = 7 * 24 * 60 * 60 * 1000000"

definition session_cookie :: "string \<Rightarrow> cookie" where
  "session_cookie tok =
     \<lparr> ck_key = ''session_token'', ck_value = tok, ck_httponly = True, ck_secure = True,
       ck_samesite = ''none'', ck_path = ''/'', ck_max_age = 7 * 24 * 60 * 60 \<rparr>"

text \<open>Lines 110 to 171: the database part of \<open>create_session\<close>. The three uuids are the ones
  the handler draws for the user id (used only for a new user), the token and the session
  id.\<close>

definition issue_session ::
  "uuid \<Rightarrow> uuid \<Rightarrow> uuid \<Rightarrow> timestamp \<Rightarrow> store \<Rightarrow> auth_data \<Rightarrow> store \<times> session_response" where
  "issue_session u1 u2 u3 now db d =
     (let (users', user) = upsert_user u1 d (users db);
          tok = ''sess_'' @ uuid_hex u2;
          session_id_new = uuid_str u3;
          expires = now + seven_days;
          kept = fst (sql_delete (\<lambda>s. sess_user_id s = user_id user) (sessions db));
          sessions' = sql_insert
            \<lparr> session_id = session_id_new, sess_user_id = user_id user,
              session_token = tok, expires_at = expires \<rparr> kept
      in (db\<lparr>users := users', sessions := sessions'\<rparr>,
          \<lparr> sr_user = public_user user, sr_session_token = tok,
            sr_set_cookie = session_cookie tok \<rparr>))"

text \<open>\<open>POST /api/auth/session\<close>. The argument is \<open>body.get("session_id")\<close>.\<close>

definition create_session ::
  "(string \<Rightarrow> exchange_result) \<Rightarrow> uuid \<Rightarrow> uuid \<Rightarrow> uuid \<Rightarrow> timestamp \<Rightarrow> store \<Rightarrow> string option
     \<Rightarrow> store \<times> (http_error + session_response)" where
  "create_session exch u1 u2 u3 now db body_session_id =
     (case body_session_id of
        None \<Rightarrow> (db, Inl (HTTPException 400 ''session_id required''))
      | Some sid \<Rightarrow>
          if sid = [] then (db, Inl (HTTPException 400 ''session_id required''))
          else
            (case resolve_identity exch sid of
               Inl e \<Rightarrow> (db, Inl e)
             | Inr d \<Rightarrow> (let (db', r) = issue_session u1 u2 u3 now db d in (db', Inr r))))"

text \<open>\<open>GET /api/auth/me\<close>.\<close>

definition get_me :: "timestamp \<Rightarrow> store \<Rightarrow> request \<Rightarrow> store \<times> (http_error + user_public)" where
  "get_me now db req =
     (case get_current_user db now req of
        Inl e \<Rightarrow> (db, Inl e)
      | Inr user \<Rightarrow> (db, Inr (public_user user)))"

text \<open>\<open>POST /api/auth/logout\<close>: the answer is the message and the cookie it deletes.\<close>

definition logout :: "store \<Rightarrow> request \<Rightarrow> store \<times> (http_error + string \<times> string \<times> string)" where
  "logout db req =
     (let db' =
        (case get_session_token req of
           None \<Rightarrow> db
         | Some token \<Rightarrow>
             if token = [] then db
             else db\<lparr>sessions := fst (sql_delete (\<lambda>s. session_token s = token) (sessions db))\<rparr>)
      in (db', Inr (''Logged out successfully'', ''session_token'', ''/'')))"

text \<open>\<open>POST /api/auth/complete-onboarding\<close>. The argument \<open>body_data\<close> is the \<open>data\<close> entry of
  the request body when it has one.\<close>

definition complete_onboarding ::
  "timestamp \<Rightarrow> store \<Rightarrow> request \<Rightarrow> json option \<Rightarrow> store \<times> (http_error + string \<times> bool)" where
  "complete_onboarding now db req body_data =
     (case get_current_user db now req of
        Inl e \<Rightarrow> (db, Inl e)
      | Inr user \<Rightarrow>
          (let onboarding_data = (case body_data of None \<Rightarrow> JObj [] | Some v \<Rightarrow> v);
               users' = fst (sql_update (\<lambda>u. user_id u = user_id user)
                          (\<lambda>u. u\<lparr>onboarding_completed := True,
                                 settings := jsonb_concat (settings u)
                                               [(''onboarding'', onboarding_data)]\<rparr>)
                          (users db))
           in (db\<lparr>users := users'\<rparr>, Inr (''Onboarding completed'', True))))"

section \<open>Bot routes\<close>

text \<open>\<open>GET /api/bots\<close>.\<close>

definition get_bots :: "timestamp \<Rightarrow> store \<Rightarrow> request \<Rightarrow> store \<times> (http_error + bot_row list)" where
  "get_bots now db req =
     (case get_current_user db now req of
        Inl e \<Rightarrow> (db, Inl e)
      | Inr user \<Rightarrow>
          (db, Inr (sort_key (\<lambda>b. - created_at b)
                      (sql_select (\<lambda>b. bot_user_id b = user_id user) (bots db)))))"

text \<open>Modelled from the spec: the \<open>CREATE TABLE\<close> statement of \<open>bots\<close> is not part of the
  source; the \<open>INSERT\<close> of \<open>create_bot\<close> leaves out \<open>created_at\<close> and \<open>updated_at\<close>, which the
  data model of the spec lists as columns of a bot, set when the row is written.\<close>

definition new_bot_row :: "string \<Rightarrow> string \<Rightarrow> BotCreate \<Rightarrow> timestamp \<Rightarrow> bot_row" where
  "new_bot_row bid uid bot_data now =
     \<lparr> bot_id = bid, bot_user_id = uid, bot_name = bc_name bot_data,
       strategy = bc_strategy bot_data, trading_pair = bc_trading_pair bot_data,
       exchange = bc_exchange bot_data,
       initial_investment = bc_initial_investment bot_data,
       current_value = bc_initial_investment bot_data,
       is_virtual = bc_is_virtual bot_data, bot_settings = bc_settings bot_data,
       status = ''stopped'', created_at = now, updated_at = now \<rparr>"

text \<open>\<open>POST /api/bots\<close>.\<close>

definition create_bot ::
  "uuid \<Rightarrow> timestamp \<Rightarrow> store \<Rightarrow> request \<Rightarrow> BotCreate \<Rightarrow> store \<times> (http_error + bot_row)" where
  "create_bot u now db req bot_data =
     (case get_current_user db now req of
        Inl e \<Rightarrow> (db, Inl e)
      | Inr user \<Rightarrow>
          (let bid = ''bot_'' @ take 12 (uuid_hex u);
               row = new_bot_row bid (user_id user) bot_data now
           in (db\<lparr>bots := sql_insert row (bots db)\<rparr>, Inr row)))"

text \<open>The \<open>WHERE bot_id = %s AND user_id = %s\<close> of every statement on one bot.\<close>

definition bot_scope :: "string \<Rightarrow> string \<Rightarrow> bot_row \<Rightarrow> bool" where
  "bot_scope bid uid b = (bot_id b = bid \<and> bot_user_id b = uid)"

definition bot_not_found :: http_error where
  "bot_not_found = HTTPException 404 ''Bot not found''"

text \<open>\<open>GET /api/bots/{bot_id}\<close>.\<close>

definition get_bot :: "timestamp \<Rightarrow> store \<Rightarrow> request \<Rightarrow> string \<Rightarrow> store \<times> (http_error + bot_row)" where
  "get_bot now db req bid =
     (case get_current_user db now req of
        Inl e \<Rightarrow> (db, Inl e)
      | Inr user \<Rightarrow>
          (case fetchone (sql_select (bot_scope bid (user_id user)) (bots db)) of
             None \<Rightarrow> (db, Inl bot_not_found)
           | Some row \<Rightarrow> (db, Inr row)))"

text \<open>The \<open>SET\<close> list that \<open>update_bot\<close> builds: one assignment for each field of the partial
  that is truthy in Python (not \<open>None\<close>, not the empty string, not the empty dict), then
  \<open>updated_at = NOW()\<close>.\<close>

definition update_assignments :: "BotUpdate \<Rightarrow> timestamp \<Rightarrow> (bot_row \<Rightarrow> bot_row) list" where
  "update_assignments bot_data now =
     (case bu_name bot_data of
        None \<Rightarrow> []
      | Some n \<Rightarrow> if n \<noteq> [] then [\<lambda>b. b\<lparr>bot_name := n\<rparr>] else [])
     @ (case bu_status bot_data of
          None \<Rightarrow> []
        | Some s \<Rightarrow> if s \<noteq> [] then [\<lambda>b. b\<lparr>status := s\<rparr>] else [])
     @ (case bu_settings bot_data of
          None \<Rightarrow> []
        | Some d \<Rightarrow> if d \<noteq> [] then [\<lambda>b. b\<lparr>bot_settings := d\<rparr>] else [])
     @ [\<lambda>b. b\<lparr>updated_at := now\<rparr>]"

definition apply_assignments :: "(bot_row \<Rightarrow> bot_row) list \<Rightarrow> bot_row \<Rightarrow> bot_row" where
  "apply_assignments fs b = fold (\<lambda>f r. f r) fs b"

text \<open>The tail shared by \<open>update_bot\<close>, \<open>start_bot\<close> and \<open>stop_bot\<close>: run the
  \<open>UPDATE ... RETURNING *\<close>, commit, then answer 404 when no row came back.\<close>

definition update_scoped ::
  "store \<Rightarrow> string \<Rightarrow> string \<Rightarrow> (bot_row \<Rightarrow> bot_row) \<Rightarrow> store \<times> (http_error + bot_row)" where
  "update_scoped db bid uid f =
     (let (bots', returned) = sql_update (bot_scope bid uid) f (bots db);
          db' = db\<lparr>bots := bots'\<rparr>
      in (case fetchone returned of
            None \<Rightarrow> (db', Inl bot_not_found)
          | Some row \<Rightarrow> (db', Inr row)))"

text \<open>\<open>PUT /api/bots/{bot_id}\<close>.\<close>

definition update_bot ::
  "timestamp \<Rightarrow> store \<Rightarrow> request \<Rightarrow> string \<Rightarrow> BotUpdate \<Rightarrow> store \<times> (http_error + bot_row)" where
  "update_bot now db req bid bot_data =
     (case get_current_user db now req of
        Inl e \<Rightarrow> (db, Inl e)
      | Inr user \<Rightarrow>
          update_scoped db bid (user_id user)
            (apply_assignments (update_assignments bot_data now)))"

text \<open>\<open>DELETE /api/bots/{bot_id}\<close>.\<close>

definition delete_bot :: "timestamp \<Rightarrow> store \<Rightarrow> request \<Rightarrow> string \<Rightarrow> store \<times> (http_error + string)" where
  "delete_bot now db req bid =
     (case get_current_user db now req of
        Inl e \<Rightarrow> (db, Inl e)
      | Inr user \<Rightarrow>
          (let (bots', deleted) = sql_delete (bot_scope bid (user_id user)) (bots db);
               db' = db\<lparr>bots := bots'\<rparr>
           in (case fetchone deleted of
                 None \<Rightarrow> (db', Inl bot_not_found)
               | Some _ \<Rightarrow> (db', Inr ''Bot deleted successfully''))))"

text \<open>\<open>POST /api/bots/{bot_id}/start\<close> and \<open>POST /api/bots/{bot_id}/stop\<close>.\<close>

definition start_bot :: "timestamp \<Rightarrow> store \<Rightarrow> request \<Rightarrow> string \<Rightarrow> store \<times> (http_error + bot_row)" where
  "start_bot now db req bid =
     (case get_current_user db now req of
        Inl e \<Rightarrow> (db, Inl e)
      | Inr user \<Rightarrow>
          update_scoped db bid (user_id user) (\<lambda>b. b\<lparr>status := ''running'', updated_at := now\<rparr>))"

definition stop_bot :: "timestamp \<Rightarrow> store \<Rightarrow> request \<Rightarrow> string \<Rightarrow> store \<times> (http_error + bot_row)" where
  "stop_bot now db req bid =
     (case get_current_user db now req of
        Inl e \<Rightarrow> (db, Inl e)
      | Inr user \<Rightarrow>
          update_scoped db bid (user_id user) (\<lambda>b. b\<lparr>status := ''stopped'', updated_at := now\<rparr>))"

section \<open>Body validation ahead of the handler\<close>

text \<open>
  \<open>create_bot\<close> and \<open>update_bot\<close> declare their body as a parameter with a pydantic model
  (\<open>bot_data: BotCreate\<close>, \<open>bot_data: BotUpdate\<close>). FastAPI parses and validates such a body
  before it calls the handler and answers 422 (\<open>RequestValidationError\<close>) without calling it
  when the body fails. \<open>get_current_user\<close> is called by the first statement of the handler
  body, so it runs after the validation. The outcome of the validation is the argument of
  the route: \<open>None\<close> for a body that is rejected, the model otherwise. The other seven
  protected handlers take the request and a path string only, and are called as they are.
\<close>

datatype route_error = RequestValidationError | HandlerError http_error

fun status_code :: "route_error \<Rightarrow> nat" where
  "status_code RequestValidationError = 422"
| "status_code (HandlerError (HTTPException code detail)) = code"

definition handler_answer :: "store \<times> (http_error + 'a) \<Rightarrow> store \<times> (route_error + 'a)" where
  "handler_answer r =
     (fst r, case snd r of Inl e \<Rightarrow> Inl (HandlerError e) | Inr x \<Rightarrow> Inr x)"

text \<open>\<open>POST /api/bots\<close> and \<open>PUT /api/bots/{bot_id}\<close> as FastAPI serves them.\<close>

definition route_create_bot ::
  "uuid \<Rightarrow> timestamp \<Rightarrow> store \<Rightarrow> request \<Rightarrow> BotCreate option \<Rightarrow> store \<times> (route_error + bot_row)" where
  "route_create_bot u now db req body =
     (case body of
        None \<Rightarrow> (db, Inl RequestValidationError)
      | Some bot_data \<Rightarrow> handler_answer (create_bot u now db req bot_data))"

definition route_update_bot ::
  "timestamp \<Rightarrow> store \<Rightarrow> request \<Rightarrow> string \<Rightarrow> BotUpdate option \<Rightarrow> store \<times> (route_error + bot_row)" where
  "route_update_bot now db req bid body =
     (case body of
        None \<Rightarrow> (db, Inl RequestValidationError)
      | Some bot_data \<Rightarrow> handler_answer (update_bot now db req bid bot_data))"

section \<open>Sequences of requests\<close>

text \<open>One request to one of the routes above, with everything the handler reads besides
  the store and the clock: the answer of the exchange and the uuids it draws, the request,
  the path parameter and the body.\<close>

datatype operation =
    CreateSession "string \<Rightarrow> exchange_result" uuid uuid uuid "string option"
  | GetMe request
  | Logout request
  | CompleteOnboarding request "json option"
  | GetBots request
  | CreateBot uuid request BotCreate
  | GetBot request string
  | UpdateBot request string BotUpdate
  | DeleteBot request string
  | StartBot request string
  | StopBot request string

text \<open>The store after one request made at time \<open>now\<close>.\<close>

fun step :: "store \<Rightarrow> timestamp \<times> operation \<Rightarrow> store" where
  "step db (now, CreateSession exch u1 u2 u3 sid) = fst (create_session exch u1 u2 u3 now db sid)"
| "step db (now, GetMe req) = fst (get_me now db req)"
| "step db (now, Logout req) = fst (logout db req)"
| "step db (now, CompleteOnboarding req body_data) = fst (complete_onboarding now db req body_data)"
| "step db (now, GetBots req) = fst (get_bots now db req)"
| "step db (now, CreateBot u req bot_data) = fst (create_bot u now db req bot_data)"
| "step db (now, GetBot req bid) = fst (get_bot now db req bid)"
| "step db (now, UpdateBot req bid bot_data) = fst (update_bot now db req bid bot_data)"
| "step db (now, DeleteBot req bid) = fst (delete_bot now db req bid)"
| "step db (now, StartBot req bid) = fst (start_bot now db req bid)"
| "step db (now, StopBot req bid) = fst (stop_bot now db req bid)"

definition run :: "store \<Rightarrow> (timestamp \<times> operation) list \<Rightarrow> store" where
  "run db ops = foldl step db ops"




text \<open>The partial update as the specification words it: a field of the partial that is
  absent or empty leaves the column as it is, a provided one replaces it, and \<open>updated_at\<close>
  is refreshed.\<close>

definition spec_partial_update :: "BotUpdate \<Rightarrow> timestamp \<Rightarrow> bot_row \<Rightarrow> bot_row" where
  "spec_partial_update d now b =
     b\<lparr> bot_name := (case bu_name d of None \<Rightarrow> bot_name b
                       | Some n \<Rightarrow> if n = [] then bot_name b else n),
        status := (case bu_status d of None \<Rightarrow> status b
                     | Some s \<Rightarrow> if s = [] then status b else s),
        bot_settings := (case bu_settings d of None \<Rightarrow> bot_settings b
                           | Some x \<Rightarrow> if x = [] then bot_settings b else x),
        updated_at := now \<rparr>"

section \<open>A small store for concrete runs\<close>

definition alice :: user_row where
  "alice = \<lparr> user_id = ''user_a1'', email = Some ''alice@example.com'', name = Some ''Alice'',
             picture = None, onboarding_completed = False,
             settings = [(''theme'', JStr ''dark'')] \<rparr>"

definition bob :: user_row where
  "bob = \<lparr> user_id = ''user_b2'', email = Some ''bob@example.com'', name = Some ''Bob'',
           picture = None, onboarding_completed = False, settings = [] \<rparr>"

definition alice_bot :: bot_row where
  "alice_bot = \<lparr> bot_id = ''bot_1'', bot_user_id = ''user_a1'', bot_name = ''Bot1'',
                 strategy = ''grid'', trading_pair = ''BTC/USDT'', exchange = ''binance'',
                 initial_investment = 1000, current_value = 1000, is_virtual = True,
                 bot_settings = [(''grid_levels'', JNum 5)], status = ''stopped'',
                 created_at = 5, updated_at = 5 \<rparr>"

definition demo_db :: store where
  "demo_db = \<lparr> users = [alice, bob],
               sessions =
                 [\<lparr> session_id = ''s-1'', sess_user_id = ''user_a1'',
                    session_token = ''sess_aa'', expires_at = 1000 \<rparr>,
                  \<lparr> session_id = ''s-2'', sess_user_id = ''user_b2'',
                    session_token = ''sess_bb'', expires_at = 1000 \<rparr>],
               bots = [alice_bot] \<rparr>"

definition alice_req :: request where
  "alice_req = \<lparr> cookies = [''session_token'' \<mapsto> ''sess_aa''], headers = Map.empty \<rparr>"

definition bob_req :: request where
  "bob_req = \<lparr> cookies = Map.empty, headers = [''Authorization'' \<mapsto> ''Bearer sess_bb''] \<rparr>"

text \<open>An identity exchange that knows one external session id, three uuids, and the request
  that carries the token made from the second one in its cookie.\<close>

definition demo_exchange :: "string \<Rightarrow> exchange_result" where
  "demo_exchange sid =
     (if sid = ''ext-alice''
      then ExchangeResponse 200
             \<lparr> ad_email = Some ''alice@example.com'', ad_name = Some ''Alice A.'',
               ad_picture = None \<rparr>
      else ExchangeResponse 404 \<lparr> ad_email = None, ad_name = None, ad_picture = None \<rparr>)"

definition uuid_a :: uuid where
  "uuid_a = ''0123456789abcdef0123456789abcdef''"

definition uuid_b :: uuid where
  "uuid_b = ''11112222333344445555666677778888''"

definition uuid_c :: uuid where
  "uuid_c = ''9999aaaabbbbccccddddeeeeffff0000''"

definition token_b_req :: request where
  "token_b_req =
     \<lparr> cookies = [''session_token'' \<mapsto> ''sess_11112222333344445555666677778888''],
       headers = Map.empty \<rparr>"

text \<open>A request without credentials, and one whose \<open>session_token\<close> cookie is present but
  empty (the header \<open>Cookie: session_token=\<close>) next to a bearer token.\<close>

definition anonymous_req :: request where
  "anonymous_req = \<lparr> cookies = Map.empty, headers = Map.empty \<rparr>"

definition empty_cookie_req :: request where
  "empty_cookie_req =
     \<lparr> cookies = [''session_token'' \<mapsto> []],
       headers = [''Authorization'' \<mapsto> ''Bearer sess_aa''] \<rparr>"

section \<open>Basic facts about the statements\<close>

lemma fetchone_Nil [simp]: "fetchone [] = None"
  by (simp add: fetchone_def)

lemma fetchone_Cons [simp]: "fetchone (r # rs) = Some r"
  by (simp add: fetchone_def)

lemma fetchone_Some_mem: "fetchone rows = Some r \<Longrightarrow> r \<in> set rows"
  by (cases rows) auto

lemma map_if_none: "filter P t = [] \<Longrightarrow> map (\<lambda>r. if P r then f r else r) t = t"
  by (induction t) (auto split: if_splits)

lemma filter_none_keep: "filter P t = [] \<Longrightarrow> filter (\<lambda>r. \<not> P r) t = t"
  by (induction t) (auto split: if_splits)

lemma store_bots_same [simp]: "db\<lparr>bots := bots db\<rparr> = (db::store)"
  by simp

lemma update_scoped_some:
  assumes "filter (bot_scope bid uid) (bots db) = row # rest"
  shows "update_scoped db bid uid f =
           (db\<lparr>bots := map (\<lambda>r. if bot_scope bid uid r then f r else r) (bots db)\<rparr>, Inr (f row))"
  using assms by (simp add: update_scoped_def sql_update_def)


lemma spec_partial_update_refines:
  "apply_assignments (update_assignments d now) = spec_partial_update d now"
  by (rule ext) (simp add: apply_assignments_def update_assignments_def spec_partial_update_def
        split: option.splits)

lemma scope_member:
  assumes "b \<in> set t" "bot_id b = bid" "bot_user_id b = uid"
  obtains row rest where "filter (bot_scope bid uid) t = row # rest"
proof (cases "filter (bot_scope bid uid) t")
  case Nil
  with assms have False by (auto simp: filter_empty_conv bot_scope_def)
  then show ?thesis ..
next
  case (Cons row rest)
  then show ?thesis by (rule that)
qed

lemma filter_head_mem: "filter P t = row # rest \<Longrightarrow> row \<in> set t \<and> P row"
proof -
  assume a: "filter P t = row # rest"
  have "row \<in> set (filter P t)" by (simp add: a)
  then show ?thesis by simp
qed

section \<open>The concrete store\<close>

lemma get_session_token_alice: "get_session_token alice_req = Some ''sess_aa''"
  by (simp add: get_session_token_def alice_req_def)

lemma get_session_token_bob: "get_session_token bob_req = Some ''sess_bb''"
  by (simp add: get_session_token_def bob_req_def startswith_def)

lemma auth_alice: "get_current_user demo_db 10 alice_req = Inr alice"
  by (simp add: get_current_user_def get_session_token_alice session_users_def demo_db_def
        alice_def bob_def)

lemma auth_bob: "get_current_user demo_db 10 bob_req = Inr bob"
  by (simp add: get_current_user_def get_session_token_bob session_users_def demo_db_def
        alice_def bob_def)

section \<open>Partial update of a bot\<close>

text \<open>
  Claim C4. For a bot of the authenticated user, \<open>update_bot\<close> rewrites every row in scope with
  the partial update of the specification: only the fields that are provided and non-empty
  change, \<open>updated_at\<close> becomes the time of the call, and the answer is the updated row. A
  partial whose \<open>settings\<close> is the empty mapping behaves exactly as one without \<open>settings\<close>.
\<close>

theorem update_bot_changes_only_provided:
  assumes auth: "get_current_user db now req = Inr user"
      and owned: "b \<in> set (bots db)" "bot_id b = bid" "bot_user_id b = user_id user"
  shows "\<exists>row. row \<in> set (bots db) \<and> bot_scope bid (user_id user) row \<and>
           update_bot now db req bid d =
             (db\<lparr>bots := map (\<lambda>r. if bot_scope bid (user_id user) r
                                  then spec_partial_update d now r else r) (bots db)\<rparr>,
              Inr (spec_partial_update d now row)) \<and>
           update_bot now db req bid (d\<lparr>bu_settings := Some []\<rparr>) =
             update_bot now db req bid (d\<lparr>bu_settings := None\<rparr>)"
proof -
  from owned obtain row rest where f: "filter (bot_scope bid (user_id user)) (bots db) = row # rest"
    by (rule scope_member)
  have same: "update_assignments (d\<lparr>bu_settings := Some []\<rparr>) now =
              update_assignments (d\<lparr>bu_settings := None\<rparr>) now"
    by (simp add: update_assignments_def)
  have "update_bot now db req bid d =
          (db\<lparr>bots := map (\<lambda>r. if bot_scope bid (user_id user) r
                               then spec_partial_update d now r else r) (bots db)\<rparr>,
           Inr (spec_partial_update d now row))"
    using auth f by (simp add: update_bot_def update_scoped_some spec_partial_update_refines)
  moreover have "update_bot now db req bid (d\<lparr>bu_settings := Some []\<rparr>) =
                 update_bot now db req bid (d\<lparr>bu_settings := None\<rparr>)"
    unfolding update_bot_def same ..
  ultimately show ?thesis using filter_head_mem[OF f] by blast
qed

theorem update_bot_changes_only_provided_witness:
  "get_current_user demo_db 10 alice_req = Inr alice \<and> alice_bot \<in> set (bots demo_db) \<and>
   bot_id alice_bot = ''bot_1'' \<and> bot_user_id alice_bot = user_id alice \<and>
   update_bot 10 demo_db alice_req ''bot_1''
       \<lparr>bu_name = Some ''Renamed'', bu_status = None, bu_settings = Some []\<rparr> =
     (demo_db\<lparr>bots := [alice_bot\<lparr>bot_name := ''Renamed'', updated_at := 10\<rparr>]\<rparr>,
      Inr (alice_bot\<lparr>bot_name := ''Renamed'', updated_at := 10\<rparr>))"
proof -
  have h1: "alice_bot \<in> set (bots demo_db)" by (simp add: demo_db_def)
  have h2: "bot_id alice_bot = ''bot_1''" by (simp add: alice_bot_def)
  have h3: "bot_user_id alice_bot = user_id alice" by (simp add: alice_bot_def alice_def)
  from update_bot_changes_only_provided[OF auth_alice h1 h2 h3,
      of "\<lparr>bu_name = Some ''Renamed'', bu_status = None, bu_settings = Some []\<rparr>"]
  show ?thesis using auth_alice h1 h2 h3
    by (auto simp: demo_db_def bot_scope_def spec_partial_update_def alice_bot_def alice_def)
qed

section \<open>Statements on one bot\<close>

lemma fetchone_map: "fetchone (map f rows) = map_option f (fetchone rows)"
  by (cases rows) simp_all

lemma update_scoped_eq:
  "update_scoped db bid uid f =
     (db\<lparr>bots := map (\<lambda>r. if bot_scope bid uid r then f r else r) (bots db)\<rparr>,
      case fetchone (filter (bot_scope bid uid) (bots db)) of
        None \<Rightarrow> Inl bot_not_found
      | Some row \<Rightarrow> Inr (f row))"
  by (simp add: update_scoped_def sql_update_def fetchone_map split: option.splits)

lemma filter_scope_update:
  assumes "\<And>r. bot_id (f r) = bot_id r" "\<And>r. bot_user_id (f r) = bot_user_id r"
  shows "filter (bot_scope bid uid) (map (\<lambda>r. if bot_scope bid uid r then f r else r) t) =
         map f (filter (bot_scope bid uid) t)"
  using assms by (induction t) (auto simp: bot_scope_def)

lemma session_users_bots [simp]:
  "session_users (db\<lparr>bots := t\<rparr>) now tok = session_users db now tok"
  by (simp add: session_users_def)

lemma get_current_user_bots [simp]:
  "get_current_user (db\<lparr>bots := t\<rparr>) now req = get_current_user db now req"
  by (simp only: get_current_user_def session_users_bots)

lemma start_bot_auth:
  "get_current_user db now req = Inr user \<Longrightarrow>
   start_bot now db req bid =
     update_scoped db bid (user_id user) (\<lambda>b. b\<lparr>status := ''running'', updated_at := now\<rparr>)"
  by (simp add: start_bot_def)

lemma stop_bot_auth:
  "get_current_user db now req = Inr user \<Longrightarrow>
   stop_bot now db req bid =
     update_scoped db bid (user_id user) (\<lambda>b. b\<lparr>status := ''stopped'', updated_at := now\<rparr>)"
  by (simp add: stop_bot_def)

text \<open>Two updates of the same scope, the second overwriting what the first wrote.\<close>

lemma update_scoped_twice:
  assumes keep: "\<And>r. bot_id (f r) = bot_id r" "\<And>r. bot_user_id (f r) = bot_user_id r"
      and over: "\<And>r. g (f r) = g r"
  shows "update_scoped (fst (update_scoped db bid uid f)) bid uid g = update_scoped db bid uid g"
proof -
  have m: "map (\<lambda>r. if bot_scope bid uid r then g r else r)
             (map (\<lambda>r. if bot_scope bid uid r then f r else r) t) =
           map (\<lambda>r. if bot_scope bid uid r then g r else r) t" for t
    using keep over by (induction t) (auto simp: bot_scope_def)
  have fo: "(case fetchone (map f rows) of None \<Rightarrow> Inl bot_not_found | Some row \<Rightarrow> Inr (g row)) =
            (case fetchone rows of None \<Rightarrow> Inl bot_not_found | Some row \<Rightarrow> Inr (g row))" for rows
    using over by (cases rows) simp_all
  show ?thesis
    by (simp add: update_scoped_eq filter_scope_update[OF keep] m fo del: map_map)
qed

lemma update_bot_auth:
  "get_current_user db now req = Inr user \<Longrightarrow>
   update_bot now db req bid d =
     update_scoped db bid (user_id user) (spec_partial_update d now)"
  by (simp add: update_bot_def spec_partial_update_refines)

lemma demo_alice_bot: "alice_bot \<in> set (bots demo_db)"
  by (simp add: demo_db_def)

lemma demo_alice_owner: "bot_user_id alice_bot = user_id alice"
  by (simp add: alice_bot_def alice_def)

lemma demo_alice_bot_id: "bot_id alice_bot = ''bot_1''"
  by (simp add: alice_bot_def)

lemma demo_update:
  "update_bot 10 demo_db alice_req ''bot_1'' d =
     (demo_db\<lparr>bots := [spec_partial_update d 10 alice_bot]\<rparr>,
      Inr (spec_partial_update d 10 alice_bot))"
proof -
  have b: "bots demo_db = [alice_bot]" by (simp add: demo_db_def)
  have sc: "bot_scope ''bot_1'' (user_id alice) alice_bot"
    by (simp add: bot_scope_def alice_bot_def alice_def)
  show ?thesis
    unfolding update_bot_auth[OF auth_alice] update_scoped_eq b using sc by simp
qed

text \<open>
  Claim C9. For a bot of the authenticated user and a partial whose \<open>status\<close> is a non-empty
  string \<open>s\<close>, \<open>update_bot\<close> succeeds, answers a row whose status is \<open>s\<close>, and every row in scope
  of the new table has status \<open>s\<close>: nothing compares \<open>s\<close> with \<open>stopped\<close> or \<open>running\<close>.
\<close>

theorem update_bot_status_unvalidated:
  assumes auth: "get_current_user db now req = Inr user"
      and owned: "b \<in> set (bots db)" "bot_id b = bid" "bot_user_id b = user_id user"
      and s: "bu_status d = Some s" "s \<noteq> []"
  shows "\<exists>db' row. update_bot now db req bid d = (db', Inr row) \<and> status row = s \<and>
           row \<in> set (bots db') \<and> bot_scope bid (user_id user) row \<and>
           (\<forall>x \<in> set (bots db'). bot_scope bid (user_id user) x \<longrightarrow> status x = s)"
proof -
  let ?P = "bot_scope bid (user_id user)"
  let ?f = "spec_partial_update d now"
  from owned obtain row rest where f: "filter ?P (bots db) = row # rest"
    by (rule scope_member)
  have st: "status (?f r) = s" for r
    using s by (simp add: spec_partial_update_def)
  have keep: "?P (?f r) = ?P r" for r
    by (simp add: spec_partial_update_def bot_scope_def)
  have res: "update_bot now db req bid d =
               (db\<lparr>bots := map (\<lambda>r. if ?P r then ?f r else r) (bots db)\<rparr>, Inr (?f row))"
    using auth f by (simp add: update_bot_auth update_scoped_eq)
  have row: "row \<in> set (bots db)" "?P row"
    using filter_head_mem[OF f] by simp_all
  have mem: "?f row \<in> set (map (\<lambda>r. if ?P r then ?f r else r) (bots db))"
    using row by force
  have all: "\<forall>x \<in> set (map (\<lambda>r. if ?P r then ?f r else r) (bots db)). ?P x \<longrightarrow> status x = s"
    using st keep by auto
  show ?thesis
  proof (intro exI conjI)
    show "update_bot now db req bid d =
            (db\<lparr>bots := map (\<lambda>r. if ?P r then ?f r else r) (bots db)\<rparr>, Inr (?f row))"
      by (rule res)
    show "status (?f row) = s" by (rule st)
    show "?f row \<in> set (bots (db\<lparr>bots := map (\<lambda>r. if ?P r then ?f r else r) (bots db)\<rparr>))"
      using mem by simp
    show "?P (?f row)" using keep row(2) by simp
    show "\<forall>x \<in> set (bots (db\<lparr>bots := map (\<lambda>r. if ?P r then ?f r else r) (bots db)\<rparr>)).
            ?P x \<longrightarrow> status x = s"
      using all by simp
  qed
qed

theorem update_bot_status_unvalidated_witness:
  "get_current_user demo_db 10 alice_req = Inr alice \<and> alice_bot \<in> set (bots demo_db) \<and>
   bot_id alice_bot = ''bot_1'' \<and> bot_user_id alice_bot = user_id alice \<and>
   ''paused'' \<noteq> [] \<and>
   update_bot 10 demo_db alice_req ''bot_1''
       \<lparr>bu_name = None, bu_status = Some ''paused'', bu_settings = None\<rparr> =
     (demo_db\<lparr>bots := [alice_bot\<lparr>status := ''paused'', updated_at := 10\<rparr>]\<rparr>,
      Inr (alice_bot\<lparr>status := ''paused'', updated_at := 10\<rparr>))"
proof -
  have h: "bu_status \<lparr>bu_name = None, bu_status = Some ''paused'', bu_settings = None\<rparr>
             = Some ''paused''" "''paused'' \<noteq> []"
    by simp_all
  from update_bot_status_unvalidated[OF auth_alice demo_alice_bot demo_alice_bot_id demo_alice_owner h]
  obtain db' row where
    "update_bot 10 demo_db alice_req ''bot_1''
       \<lparr>bu_name = None, bu_status = Some ''paused'', bu_settings = None\<rparr> = (db', Inr row)"
    "status row = ''paused''"
    by blast
  moreover have "update_bot 10 demo_db alice_req ''bot_1''
       \<lparr>bu_name = None, bu_status = Some ''paused'', bu_settings = None\<rparr> =
     (demo_db\<lparr>bots := [alice_bot\<lparr>status := ''paused'', updated_at := 10\<rparr>]\<rparr>,
      Inr (alice_bot\<lparr>status := ''paused'', updated_at := 10\<rparr>))"
    unfolding demo_update by (simp add: spec_partial_update_def)
  ultimately show ?thesis
    using auth_alice demo_alice_bot demo_alice_bot_id demo_alice_owner by simp
qed

text \<open>
  Claim C10. A partial in which every field is absent or empty is accepted: for a bot of the
  authenticated user \<open>update_bot\<close> succeeds, sets \<open>updated_at\<close> of the rows in scope to the time
  of the call, changes nothing else, and answers the row.
\<close>

theorem update_bot_empty_partial:
  assumes auth: "get_current_user db now req = Inr user"
      and owned: "b \<in> set (bots db)" "bot_id b = bid" "bot_user_id b = user_id user"
      and empty: "bu_name d \<in> {None, Some []}" "bu_status d \<in> {None, Some []}"
                 "bu_settings d \<in> {None, Some []}"
  shows "\<exists>row. row \<in> set (bots db) \<and> bot_scope bid (user_id user) row \<and>
           update_bot now db req bid d =
             (db\<lparr>bots := map (\<lambda>r. if bot_scope bid (user_id user) r
                                  then r\<lparr>updated_at := now\<rparr> else r) (bots db)\<rparr>,
              Inr (row\<lparr>updated_at := now\<rparr>))"
proof -
  from owned obtain row rest where f: "filter (bot_scope bid (user_id user)) (bots db) = row # rest"
    by (rule scope_member)
  have p: "spec_partial_update d now = (\<lambda>r. r\<lparr>updated_at := now\<rparr>)"
    using empty by (auto simp: spec_partial_update_def fun_eq_iff)
  have "update_bot now db req bid d =
          (db\<lparr>bots := map (\<lambda>r. if bot_scope bid (user_id user) r
                               then r\<lparr>updated_at := now\<rparr> else r) (bots db)\<rparr>,
           Inr (row\<lparr>updated_at := now\<rparr>))"
    using auth f by (simp add: update_bot_auth update_scoped_eq p)
  then show ?thesis using filter_head_mem[OF f] by blast
qed

theorem update_bot_empty_partial_witness:
  "get_current_user demo_db 10 alice_req = Inr alice \<and> alice_bot \<in> set (bots demo_db) \<and>
   bot_id alice_bot = ''bot_1'' \<and> bot_user_id alice_bot = user_id alice \<and>
   update_bot 10 demo_db alice_req ''bot_1''
       \<lparr>bu_name = Some [], bu_status = None, bu_settings = Some []\<rparr> =
     (demo_db\<lparr>bots := [alice_bot\<lparr>updated_at := 10\<rparr>]\<rparr>, Inr (alice_bot\<lparr>updated_at := 10\<rparr>))"
proof -
  from update_bot_empty_partial[OF auth_alice demo_alice_bot demo_alice_bot_id demo_alice_owner,
      of "\<lparr>bu_name = Some [], bu_status = None, bu_settings = Some []\<rparr>" ]
  show ?thesis using auth_alice demo_alice_bot demo_alice_bot_id demo_alice_owner
    unfolding demo_update by (simp add: spec_partial_update_def)
qed

section \<open>Start and stop\<close>

lemma update_scoped_nothing:
  "filter (bot_scope bid uid) (bots db) = [] \<Longrightarrow> update_scoped db bid uid f = (db, Inl bot_not_found)"
  by (simp add: update_scoped_eq map_if_none)

text \<open>
  Claim C6. For an authenticated user, \<open>start_bot\<close> writes status \<open>running\<close> and \<open>stop_bot\<close>
  writes status \<open>stopped\<close> into every row in scope (bot_id, user_id), whatever the status was,
  with \<open>updated_at\<close> set to the time of the call, and answer the updated row; without a row in
  scope both answer 404 and leave the store as it is. Starting a second time, or starting,
  stopping and starting again, gives what the last start alone gives, so the status is
  \<open>running\<close>.
\<close>

theorem start_stop_unconditional:
  assumes auth: "get_current_user db now req = Inr user"
      and auth1: "get_current_user db t1 req = Inr user"
      and auth2: "get_current_user db t2 req = Inr user"
  shows "start_bot now db req bid =
           (db\<lparr>bots := map (\<lambda>r. if bot_scope bid (user_id user) r
                                then r\<lparr>status := ''running'', updated_at := now\<rparr> else r) (bots db)\<rparr>,
            case fetchone (filter (bot_scope bid (user_id user)) (bots db)) of
              None \<Rightarrow> Inl (HTTPException 404 ''Bot not found'')
            | Some row \<Rightarrow> Inr (row\<lparr>status := ''running'', updated_at := now\<rparr>))
       \<and> stop_bot now db req bid =
           (db\<lparr>bots := map (\<lambda>r. if bot_scope bid (user_id user) r
                                then r\<lparr>status := ''stopped'', updated_at := now\<rparr> else r) (bots db)\<rparr>,
            case fetchone (filter (bot_scope bid (user_id user)) (bots db)) of
              None \<Rightarrow> Inl (HTTPException 404 ''Bot not found'')
            | Some row \<Rightarrow> Inr (row\<lparr>status := ''stopped'', updated_at := now\<rparr>))
       \<and> (filter (bot_scope bid (user_id user)) (bots db) = [] \<longrightarrow>
            start_bot now db req bid = (db, Inl (HTTPException 404 ''Bot not found'')) \<and>
            stop_bot now db req bid = (db, Inl (HTTPException 404 ''Bot not found'')))
       \<and> start_bot now (fst (start_bot t1 db req bid)) req bid = start_bot now db req bid
       \<and> stop_bot now (fst (stop_bot t1 db req bid)) req bid = stop_bot now db req bid
       \<and> start_bot now (fst (stop_bot t2 (fst (start_bot t1 db req bid)) req bid)) req bid =
            start_bot now db req bid"
proof -
  let ?run = "\<lambda>t (b::bot_row). b\<lparr>status := ''running'', updated_at := t\<rparr>"
  let ?halt = "\<lambda>t (b::bot_row). b\<lparr>status := ''stopped'', updated_at := t\<rparr>"
  let ?u = "user_id user"
  have start_eq: "start_bot t db' req bid = update_scoped db' bid ?u (?run t)"
    if "get_current_user db' t req = Inr user" for t db'
    using that by (rule start_bot_auth)
  have stop_eq: "stop_bot t db' req bid = update_scoped db' bid ?u (?halt t)"
    if "get_current_user db' t req = Inr user" for t db'
    using that by (rule stop_bot_auth)
  have after: "get_current_user (fst (update_scoped db' bid ?u f)) t req = get_current_user db' t req"
    for db' f t
    by (simp add: update_scoped_eq)
  have c1: "start_bot now db req bid =
           (db\<lparr>bots := map (\<lambda>r. if bot_scope bid ?u r then ?run now r else r) (bots db)\<rparr>,
            case fetchone (filter (bot_scope bid ?u) (bots db)) of
              None \<Rightarrow> Inl (HTTPException 404 ''Bot not found'')
            | Some row \<Rightarrow> Inr (?run now row))"
    by (simp add: start_eq[OF auth] update_scoped_eq bot_not_found_def split: option.splits)
  have c2: "stop_bot now db req bid =
           (db\<lparr>bots := map (\<lambda>r. if bot_scope bid ?u r then ?halt now r else r) (bots db)\<rparr>,
            case fetchone (filter (bot_scope bid ?u) (bots db)) of
              None \<Rightarrow> Inl (HTTPException 404 ''Bot not found'')
            | Some row \<Rightarrow> Inr (?halt now row))"
    by (simp add: stop_eq[OF auth] update_scoped_eq bot_not_found_def split: option.splits)
  have c3: "filter (bot_scope bid ?u) (bots db) = [] \<longrightarrow>
            start_bot now db req bid = (db, Inl (HTTPException 404 ''Bot not found'')) \<and>
            stop_bot now db req bid = (db, Inl (HTTPException 404 ''Bot not found''))"
    by (simp add: start_eq[OF auth] stop_eq[OF auth] update_scoped_nothing bot_not_found_def)
  have a1: "get_current_user (fst (start_bot t1 db req bid)) t req = get_current_user db t req" for t
    by (simp only: start_eq[OF auth1] after)
  have a1': "get_current_user (fst (stop_bot t1 db req bid)) t req = get_current_user db t req" for t
    by (simp only: stop_eq[OF auth1] after)
  have c4: "start_bot now (fst (start_bot t1 db req bid)) req bid = start_bot now db req bid"
  proof -
    have "start_bot now (fst (start_bot t1 db req bid)) req bid =
          update_scoped (fst (update_scoped db bid ?u (?run t1))) bid ?u (?run now)"
      using start_eq[of "fst (start_bot t1 db req bid)" now] a1[of now] auth
      by (simp add: start_eq[OF auth1])
    also have "\<dots> = update_scoped db bid ?u (?run now)"
      by (rule update_scoped_twice) simp_all
    finally show ?thesis by (simp add: start_eq[OF auth])
  qed
  have c5: "stop_bot now (fst (stop_bot t1 db req bid)) req bid = stop_bot now db req bid"
  proof -
    have "stop_bot now (fst (stop_bot t1 db req bid)) req bid =
          update_scoped (fst (update_scoped db bid ?u (?halt t1))) bid ?u (?halt now)"
      using stop_eq[of "fst (stop_bot t1 db req bid)" now] a1'[of now] auth
      by (simp add: stop_eq[OF auth1])
    also have "\<dots> = update_scoped db bid ?u (?halt now)"
      by (rule update_scoped_twice) simp_all
    finally show ?thesis by (simp add: stop_eq[OF auth])
  qed
  have c6: "start_bot now (fst (stop_bot t2 (fst (start_bot t1 db req bid)) req bid)) req bid =
            start_bot now db req bid"
  proof -
    let ?db1 = "fst (update_scoped db bid ?u (?run t1))"
    let ?db2 = "fst (update_scoped ?db1 bid ?u (?halt t2))"
    have s1: "fst (start_bot t1 db req bid) = ?db1"
      by (simp only: start_eq[OF auth1])
    have g1: "get_current_user ?db1 t2 req = Inr user"
      using auth2 by (simp only: after)
    have s2: "fst (stop_bot t2 ?db1 req bid) = ?db2"
      by (simp only: stop_eq[OF g1])
    have g2: "get_current_user ?db2 now req = Inr user"
      using auth by (simp only: after)
    have "start_bot now ?db2 req bid = update_scoped ?db2 bid ?u (?run now)"
      by (rule start_eq[OF g2])
    also have "\<dots> = update_scoped ?db1 bid ?u (?run now)"
      by (rule update_scoped_twice) simp_all
    also have "\<dots> = update_scoped db bid ?u (?run now)"
      by (rule update_scoped_twice) simp_all
    finally show ?thesis by (simp only: s1 s2 start_eq[OF auth])
  qed
  show ?thesis
    using c1 c2 c3 c4 c5 c6 by (intro conjI)
qed

lemma auth_alice_at: "t < 1000 \<Longrightarrow> get_current_user demo_db t alice_req = Inr alice"
  by (simp add: get_current_user_def get_session_token_alice session_users_def demo_db_def
        alice_def bob_def)

theorem start_stop_unconditional_witness:
  "get_current_user demo_db 30 alice_req = Inr alice \<and>
   get_current_user demo_db 10 alice_req = Inr alice \<and>
   get_current_user demo_db 20 alice_req = Inr alice \<and>
   start_bot 30 (fst (stop_bot 20 (fst (start_bot 10 demo_db alice_req ''bot_1'')) alice_req ''bot_1''))
       alice_req ''bot_1'' =
     (demo_db\<lparr>bots := [alice_bot\<lparr>status := ''running'', updated_at := 30\<rparr>]\<rparr>,
      Inr (alice_bot\<lparr>status := ''running'', updated_at := 30\<rparr>)) \<and>
   stop_bot 30 demo_db alice_req ''bot_1'' =
     (demo_db\<lparr>bots := [alice_bot\<lparr>updated_at := 30\<rparr>]\<rparr>, Inr (alice_bot\<lparr>updated_at := 30\<rparr>)) \<and>
   start_bot 30 demo_db alice_req ''bot_9'' = (demo_db, Inl (HTTPException 404 ''Bot not found''))"
proof -
  have a: "get_current_user demo_db 30 alice_req = Inr alice"
          "get_current_user demo_db 10 alice_req = Inr alice"
          "get_current_user demo_db 20 alice_req = Inr alice"
    by (simp_all add: auth_alice_at)
  have b: "bots demo_db = [alice_bot]" by (simp add: demo_db_def)
  have sc: "bot_scope ''bot_1'' (user_id alice) alice_bot"
           "\<not> bot_scope ''bot_9'' (user_id alice) alice_bot"
    by (simp_all add: bot_scope_def alice_bot_def alice_def)
  have st: "alice_bot\<lparr>status := ''stopped'', updated_at := 30\<rparr> = alice_bot\<lparr>updated_at := 30\<rparr>"
    by (simp add: alice_bot_def)
  note t1 = start_stop_unconditional[OF a, of "''bot_1''"]
  note t9 = start_stop_unconditional[OF a, of "''bot_9''"]
  show ?thesis
    using t1 t9 a sc st by (simp add: b)
qed

section \<open>Creating a bot\<close>

text \<open>
  Claim C5. For an authenticated user and a request with the four required fields,
  \<open>create_bot\<close> appends one row to \<open>bots\<close> and answers that row. The row belongs to the user,
  carries the four fields, has \<open>current_value\<close> equal to \<open>initial_investment\<close> and status
  \<open>stopped\<close>; an omitted \<open>initial_investment\<close> is 1000.0, an omitted \<open>is_virtual\<close> is true and an
  omitted \<open>settings\<close> is the empty mapping.
\<close>

theorem create_bot_persists:
  assumes auth: "get_current_user db now req = Inr user"
  shows "\<exists>row. create_bot u now db req (BotCreate_init n s tp ex invest virt st) =
                 (db\<lparr>bots := bots db @ [row]\<rparr>, Inr row) \<and>
           bot_id row = ''bot_'' @ take 12 (uuid_hex u) \<and>
           bot_user_id row = user_id user \<and> bot_name row = n \<and> strategy row = s \<and>
           trading_pair row = tp \<and> exchange row = ex \<and>
           current_value row = initial_investment row \<and> status row = ''stopped'' \<and>
           initial_investment row = (case invest of None \<Rightarrow> 1000 | Some x \<Rightarrow> x) \<and>
           is_virtual row = (case virt of None \<Rightarrow> True | Some v \<Rightarrow> v) \<and>
           bot_settings row = (case st of None \<Rightarrow> [] | Some d \<Rightarrow> d)"
  using auth
  by (simp add: create_bot_def new_bot_row_def BotCreate_init_def sql_insert_def Let_def)

theorem create_bot_persists_witness:
  "get_current_user demo_db 10 bob_req = Inr bob \<and>
   create_bot ''0123456789abcdef0123456789abcdef'' 10 demo_db bob_req
       (BotCreate_init ''Bot1'' ''grid'' ''BTC/USDT'' ''binance'' None None None) =
     (demo_db\<lparr>bots := [alice_bot,
        \<lparr> bot_id = ''bot_0123456789ab'', bot_user_id = ''user_b2'', bot_name = ''Bot1'',
          strategy = ''grid'', trading_pair = ''BTC/USDT'', exchange = ''binance'',
          initial_investment = 1000, current_value = 1000, is_virtual = True,
          bot_settings = [], status = ''stopped'', created_at = 10, updated_at = 10 \<rparr>]\<rparr>,
      Inr \<lparr> bot_id = ''bot_0123456789ab'', bot_user_id = ''user_b2'', bot_name = ''Bot1'',
          strategy = ''grid'', trading_pair = ''BTC/USDT'', exchange = ''binance'',
          initial_investment = 1000, current_value = 1000, is_virtual = True,
          bot_settings = [], status = ''stopped'', created_at = 10, updated_at = 10 \<rparr>)"
proof -
  have b: "bots demo_db = [alice_bot]" by (simp add: demo_db_def)
  from create_bot_persists[OF auth_bob, of "''0123456789abcdef0123456789abcdef''"
      "''Bot1''" "''grid''" "''BTC/USDT''" "''binance''" None None None]
  obtain row where r:
    "create_bot ''0123456789abcdef0123456789abcdef'' 10 demo_db bob_req
       (BotCreate_init ''Bot1'' ''grid'' ''BTC/USDT'' ''binance'' None None None) =
     (demo_db\<lparr>bots := bots demo_db @ [row]\<rparr>, Inr row)"
    by blast
  have "row = new_bot_row ''bot_0123456789ab'' ''user_b2''
                (BotCreate_init ''Bot1'' ''grid'' ''BTC/USDT'' ''binance'' None None None) 10"
    using r auth_bob by (simp add: create_bot_def Let_def uuid_hex_def bob_def)
  then show ?thesis
    using r auth_bob by (simp add: b new_bot_row_def BotCreate_init_def)
qed

section \<open>Owner scoping\<close>

lemma get_bot_auth:
  "get_current_user db now req = Inr user \<Longrightarrow>
   get_bot now db req bid =
     (db, case fetchone (filter (bot_scope bid (user_id user)) (bots db)) of
            None \<Rightarrow> Inl bot_not_found | Some row \<Rightarrow> Inr row)"
  by (simp add: get_bot_def sql_select_def split: option.splits)

lemma delete_bot_auth:
  "get_current_user db now req = Inr user \<Longrightarrow>
   delete_bot now db req bid =
     (db\<lparr>bots := filter (\<lambda>r. \<not> bot_scope bid (user_id user) r) (bots db)\<rparr>,
      case fetchone (filter (bot_scope bid (user_id user)) (bots db)) of
        None \<Rightarrow> Inl bot_not_found | Some row \<Rightarrow> Inr ''Bot deleted successfully'')"
  by (simp add: delete_bot_def sql_delete_def split: option.splits)

text \<open>Without a row in scope the five operations on one bot answer 404 and change nothing.\<close>

lemma out_of_scope_not_found:
  assumes auth: "get_current_user db now req = Inr user"
      and none: "filter (bot_scope bid (user_id user)) (bots db) = []"
  shows "get_bot now db req bid = (db, Inl bot_not_found)"
    and "update_bot now db req bid d = (db, Inl bot_not_found)"
    and "delete_bot now db req bid = (db, Inl bot_not_found)"
    and "start_bot now db req bid = (db, Inl bot_not_found)"
    and "stop_bot now db req bid = (db, Inl bot_not_found)"
  using none
  by (simp_all add: get_bot_auth[OF auth] update_bot_auth[OF auth] delete_bot_auth[OF auth]
        start_bot_auth[OF auth] stop_bot_auth[OF auth] update_scoped_nothing filter_none_keep)

text \<open>
  Claim C3. Bot ids identify rows of \<open>bots\<close> (the column is the key of the table). For a bot
  \<open>b\<close> in the table and an authenticated user who is not its owner, \<open>get_bot\<close>, \<open>update_bot\<close>,
  \<open>delete_bot\<close>, \<open>start_bot\<close> and \<open>stop_bot\<close> on the id of \<open>b\<close> answer 404 with the store, and so
  \<open>b\<close>, unchanged; the answers are the ones given for an id that no bot has.
\<close>

theorem foreign_bot_not_found:
  assumes auth: "get_current_user db now req = Inr user"
      and bot: "b \<in> set (bots db)"
      and other: "bot_user_id b \<noteq> user_id user"
      and key: "distinct (map bot_id (bots db))"
      and absent: "missing \<notin> bot_id ` set (bots db)"
  shows "get_bot now db req (bot_id b) = (db, Inl (HTTPException 404 ''Bot not found'')) \<and>
         update_bot now db req (bot_id b) d = (db, Inl (HTTPException 404 ''Bot not found'')) \<and>
         delete_bot now db req (bot_id b) = (db, Inl (HTTPException 404 ''Bot not found'')) \<and>
         start_bot now db req (bot_id b) = (db, Inl (HTTPException 404 ''Bot not found'')) \<and>
         stop_bot now db req (bot_id b) = (db, Inl (HTTPException 404 ''Bot not found'')) \<and>
         get_bot now db req missing = get_bot now db req (bot_id b) \<and>
         update_bot now db req missing d = update_bot now db req (bot_id b) d \<and>
         delete_bot now db req missing = delete_bot now db req (bot_id b) \<and>
         start_bot now db req missing = start_bot now db req (bot_id b) \<and>
         stop_bot now db req missing = stop_bot now db req (bot_id b)"
proof -
  have "x = b" if "x \<in> set (bots db)" "bot_id x = bot_id b" for x
    using that bot key by (meson distinct_map inj_onD)
  then have n1: "filter (bot_scope (bot_id b) (user_id user)) (bots db) = []"
    using other by (auto simp: filter_empty_conv bot_scope_def)
  have n2: "filter (bot_scope missing (user_id user)) (bots db) = []"
    using absent by (auto simp: filter_empty_conv bot_scope_def)
  note r1 = out_of_scope_not_found[OF auth n1]
  note r2 = out_of_scope_not_found[OF auth n2]
  show ?thesis
    by (simp add: r1 r2 bot_not_found_def[symmetric])
qed

theorem foreign_bot_not_found_witness:
  "get_current_user demo_db 10 bob_req = Inr bob \<and> alice_bot \<in> set (bots demo_db) \<and>
   bot_user_id alice_bot \<noteq> user_id bob \<and> distinct (map bot_id (bots demo_db)) \<and>
   ''bot_9'' \<notin> bot_id ` set (bots demo_db) \<and>
   get_bot 10 demo_db bob_req ''bot_1'' = (demo_db, Inl (HTTPException 404 ''Bot not found'')) \<and>
   update_bot 10 demo_db bob_req ''bot_1''
       \<lparr>bu_name = Some ''Mine'', bu_status = None, bu_settings = None\<rparr> =
     (demo_db, Inl (HTTPException 404 ''Bot not found'')) \<and>
   delete_bot 10 demo_db bob_req ''bot_1'' = (demo_db, Inl (HTTPException 404 ''Bot not found'')) \<and>
   start_bot 10 demo_db bob_req ''bot_1'' = (demo_db, Inl (HTTPException 404 ''Bot not found'')) \<and>
   stop_bot 10 demo_db bob_req ''bot_1'' = (demo_db, Inl (HTTPException 404 ''Bot not found'')) \<and>
   get_bot 10 demo_db alice_req ''bot_1'' = (demo_db, Inr alice_bot)"
proof -
  have b: "bots demo_db = [alice_bot]" by (simp add: demo_db_def)
  have h2: "alice_bot \<in> set (bots demo_db)" by (simp add: b)
  have h3: "bot_user_id alice_bot \<noteq> user_id bob" by (simp add: alice_bot_def bob_def)
  have h4: "distinct (map bot_id (bots demo_db))" by (simp add: b)
  have h5: "''bot_9'' \<notin> bot_id ` set (bots demo_db)" by (simp add: b alice_bot_def)
  have own: "get_bot 10 demo_db alice_req ''bot_1'' = (demo_db, Inr alice_bot)"
    by (simp add: get_bot_auth[OF auth_alice] b bot_scope_def alice_bot_def alice_def)
  from foreign_bot_not_found[OF auth_bob h2 h3 h4 h5,
      of "\<lparr>bu_name = Some ''Mine'', bu_status = None, bu_settings = None\<rparr>"]
  show ?thesis
    using auth_bob h2 h3 h4 h5 own by (simp add: demo_alice_bot_id)
qed

section \<open>The authentication check\<close>

lemma split_space_no_space: "CHR '' '' \<notin> set s \<Longrightarrow> split_space s = [s]"
  by (induction s) auto

lemma bearer_token: "CHR '' '' \<notin> set tok \<Longrightarrow> split_space (''Bearer '' @ tok) ! 1 = tok"
  by (simp add: split_space_no_space)

lemma startswith_bearer: "startswith (''Bearer '' @ tok) ''Bearer ''"
  by (simp add: startswith_def)

lemma session_users_set:
  "set (session_users db now tok) =
     {u \<in> set (users db). \<exists>s \<in> set (sessions db).
         user_id u = sess_user_id s \<and> session_token s = tok \<and> now < expires_at s}"
  by (auto simp: session_users_def)

lemma session_users_no_session:
  "\<not> (\<exists>s \<in> set (sessions db). session_token s = tok \<and> now < expires_at s) \<Longrightarrow>
   session_users db now tok = []"
proof -
  assume "\<not> (\<exists>s \<in> set (sessions db). session_token s = tok \<and> now < expires_at s)"
  then have "set (session_users db now tok) = {}"
    unfolding session_users_set by blast
  then show ?thesis by simp
qed

lemma get_current_user_error:
  "get_current_user db now req = Inl e \<Longrightarrow> \<exists>m. e = HTTPException 401 m"
  by (auto simp: get_current_user_def split: option.splits if_splits)

text \<open>
  Claim C8, as the code has it. The token of a request is the \<open>session_token\<close> cookie when
  that cookie is present and not empty; when the cookie is absent or empty it is the piece
  after the first space of an \<open>Authorization\<close> header that starts with \<open>Bearer \<close>, and there
  is no token otherwise. Without a non-empty token \<open>get_current_user\<close> fails with 401, and it
  fails with 401 when no session row has the token and an \<open>expires_at\<close> after the time of the
  call. Whenever \<open>get_current_user\<close> fails, each of the nine protected handlers answers that
  error, a 401, and leaves the store as it is. The routes of \<open>create_bot\<close> and \<open>update_bot\<close>
  validate the body first: a rejected body is answered with 422 and the store as it is,
  whatever the credentials are, and a body that passes is answered by the handler, with the
  401 when \<open>get_current_user\<close> fails.
\<close>

theorem protected_requires_session:
  "(\<forall>c. cookies req ''session_token'' = Some c \<and> c \<noteq> [] \<longrightarrow> get_session_token req = Some c) \<and>
   (cookies req ''session_token'' \<in> {None, Some []} \<longrightarrow>
      get_session_token req =
        (case headers req ''Authorization'' of
           None \<Rightarrow> None
         | Some h \<Rightarrow> if startswith h ''Bearer '' then Some (split_space h ! 1) else None)) \<and>
   (\<forall>tok. cookies req ''session_token'' \<in> {None, Some []} \<and>
          headers req ''Authorization'' = Some (''Bearer '' @ tok) \<and> CHR '' '' \<notin> set tok \<longrightarrow>
          get_session_token req = Some tok) \<and>
   (get_session_token req \<in> {None, Some []} \<longrightarrow>
      get_current_user db now req = Inl (HTTPException 401 ''Not authenticated'')) \<and>
   (\<forall>tok. get_session_token req = Some tok \<and> tok \<noteq> [] \<and>
          \<not> (\<exists>s \<in> set (sessions db). session_token s = tok \<and> now < expires_at s) \<longrightarrow>
          get_current_user db now req = Inl (HTTPException 401 ''Invalid or expired session'')) \<and>
   (\<forall>e. get_current_user db now req = Inl e \<longrightarrow>
        (\<exists>m. e = HTTPException 401 m) \<and>
        get_me now db req = (db, Inl e) \<and>
        complete_onboarding now db req body_data = (db, Inl e) \<and>
        get_bots now db req = (db, Inl e) \<and>
        create_bot u now db req bot_data = (db, Inl e) \<and>
        get_bot now db req bid = (db, Inl e) \<and>
        update_bot now db req bid d = (db, Inl e) \<and>
        delete_bot now db req bid = (db, Inl e) \<and>
        start_bot now db req bid = (db, Inl e) \<and>
        stop_bot now db req bid = (db, Inl e) \<and>
        route_create_bot u now db req (Some bot_data) = (db, Inl (HandlerError e)) \<and>
        route_update_bot now db req bid (Some d) = (db, Inl (HandlerError e)) \<and>
        status_code (HandlerError e) = 401) \<and>
   route_create_bot u now db req None = (db, Inl RequestValidationError) \<and>
   route_update_bot now db req bid None = (db, Inl RequestValidationError) \<and>
   status_code RequestValidationError = 422"
proof -
  have c1: "\<forall>c. cookies req ''session_token'' = Some c \<and> c \<noteq> [] \<longrightarrow> get_session_token req = Some c"
    by (simp add: get_session_token_def)
  have c2: "cookies req ''session_token'' \<in> {None, Some []} \<longrightarrow>
      get_session_token req =
        (case headers req ''Authorization'' of
           None \<Rightarrow> None
         | Some h \<Rightarrow> if startswith h ''Bearer '' then Some (split_space h ! 1) else None)"
    by (auto simp: get_session_token_def startswith_def split: option.splits)
  have c3: "\<forall>tok. cookies req ''session_token'' \<in> {None, Some []} \<and>
          headers req ''Authorization'' = Some (''Bearer '' @ tok) \<and> CHR '' '' \<notin> set tok \<longrightarrow>
          get_session_token req = Some tok"
  proof (intro allI impI)
    fix tok
    assume a: "cookies req ''session_token'' \<in> {None, Some []} \<and>
          headers req ''Authorization'' = Some (''Bearer '' @ tok) \<and> CHR '' '' \<notin> set tok"
    then have "get_session_token req = Some (split_space (''Bearer '' @ tok) ! 1)"
      using c2 startswith_bearer[of tok] by simp
    then show "get_session_token req = Some tok"
      using a bearer_token[of tok] by simp
  qed
  have c4: "get_session_token req \<in> {None, Some []} \<longrightarrow>
      get_current_user db now req = Inl (HTTPException 401 ''Not authenticated'')"
    by (auto simp: get_current_user_def)
  have c5: "\<forall>tok. get_session_token req = Some tok \<and> tok \<noteq> [] \<and>
          \<not> (\<exists>s \<in> set (sessions db). session_token s = tok \<and> now < expires_at s) \<longrightarrow>
          get_current_user db now req = Inl (HTTPException 401 ''Invalid or expired session'')"
    by (auto simp: get_current_user_def session_users_no_session)
  have c6: "\<forall>e. get_current_user db now req = Inl e \<longrightarrow>
        (\<exists>m. e = HTTPException 401 m) \<and>
        get_me now db req = (db, Inl e) \<and>
        complete_onboarding now db req body_data = (db, Inl e) \<and>
        get_bots now db req = (db, Inl e) \<and>
        create_bot u now db req bot_data = (db, Inl e) \<and>
        get_bot now db req bid = (db, Inl e) \<and>
        update_bot now db req bid d = (db, Inl e) \<and>
        delete_bot now db req bid = (db, Inl e) \<and>
        start_bot now db req bid = (db, Inl e) \<and>
        stop_bot now db req bid = (db, Inl e) \<and>
        route_create_bot u now db req (Some bot_data) = (db, Inl (HandlerError e)) \<and>
        route_update_bot now db req bid (Some d) = (db, Inl (HandlerError e)) \<and>
        status_code (HandlerError e) = 401"
  proof (intro allI impI)
    fix e
    assume f: "get_current_user db now req = Inl e"
    from get_current_user_error[OF f] obtain m where m: "e = HTTPException 401 m" by blast
    have h: "create_bot u now db req bot_data = (db, Inl e)"
            "update_bot now db req bid d = (db, Inl e)"
      using f by (simp_all add: create_bot_def update_bot_def)
    have r: "route_create_bot u now db req (Some bot_data) = (db, Inl (HandlerError e))"
            "route_update_bot now db req bid (Some d) = (db, Inl (HandlerError e))"
      by (simp_all add: route_create_bot_def route_update_bot_def handler_answer_def h)
    have s: "status_code (HandlerError e) = 401"
      by (simp add: m)
    have o: "get_me now db req = (db, Inl e)"
            "complete_onboarding now db req body_data = (db, Inl e)"
            "get_bots now db req = (db, Inl e)"
            "get_bot now db req bid = (db, Inl e)"
            "delete_bot now db req bid = (db, Inl e)"
            "start_bot now db req bid = (db, Inl e)"
            "stop_bot now db req bid = (db, Inl e)"
      using f
      by (simp_all add: get_me_def complete_onboarding_def get_bots_def get_bot_def
            delete_bot_def start_bot_def stop_bot_def)
    show "(\<exists>m. e = HTTPException 401 m) \<and>
        get_me now db req = (db, Inl e) \<and>
        complete_onboarding now db req body_data = (db, Inl e) \<and>
        get_bots now db req = (db, Inl e) \<and>
        create_bot u now db req bot_data = (db, Inl e) \<and>
        get_bot now db req bid = (db, Inl e) \<and>
        update_bot now db req bid d = (db, Inl e) \<and>
        delete_bot now db req bid = (db, Inl e) \<and>
        start_bot now db req bid = (db, Inl e) \<and>
        stop_bot now db req bid = (db, Inl e) \<and>
        route_create_bot u now db req (Some bot_data) = (db, Inl (HandlerError e)) \<and>
        route_update_bot now db req bid (Some d) = (db, Inl (HandlerError e)) \<and>
        status_code (HandlerError e) = 401"
      using m h r s o by (intro conjI) blast+
  qed
  have c7: "route_create_bot u now db req None = (db, Inl RequestValidationError)"
    by (simp add: route_create_bot_def)
  have c8: "route_update_bot now db req bid None = (db, Inl RequestValidationError)"
    by (simp add: route_update_bot_def)
  have c9: "status_code RequestValidationError = 422"
    by simp
  show ?thesis
    using c1 c2 c3 c4 c5 c6 c7 c8 c9 by (intro conjI)
qed

theorem protected_requires_session_witness:
  "cookies alice_req ''session_token'' = Some ''sess_aa'' \<and>
   get_session_token alice_req = Some ''sess_aa'' \<and>
   cookies bob_req ''session_token'' = None \<and>
   headers bob_req ''Authorization'' = Some (''Bearer '' @ ''sess_bb'') \<and>
   get_session_token bob_req = Some ''sess_bb'' \<and>
   get_session_token anonymous_req = None \<and>
   get_me 10 demo_db anonymous_req = (demo_db, Inl (HTTPException 401 ''Not authenticated'')) \<and>
   \<not> (\<exists>s \<in> set (sessions demo_db). session_token s = ''sess_aa'' \<and> 2000 < expires_at s) \<and>
   get_bot 2000 demo_db alice_req ''bot_1'' =
     (demo_db, Inl (HTTPException 401 ''Invalid or expired session'')) \<and>
   route_update_bot 10 demo_db anonymous_req ''bot_1''
       (Some \<lparr>bu_name = Some ''Mine'', bu_status = None, bu_settings = None\<rparr>) =
     (demo_db, Inl (HandlerError (HTTPException 401 ''Not authenticated''))) \<and>
   route_create_bot uuid_a 10 demo_db anonymous_req
       (Some (BotCreate_init ''Bot1'' ''grid'' ''BTC/USDT'' ''binance'' None None None)) =
     (demo_db, Inl (HandlerError (HTTPException 401 ''Not authenticated''))) \<and>
   route_create_bot uuid_a 2000 demo_db alice_req None = (demo_db, Inl RequestValidationError)"
proof -
  have a1: "cookies alice_req ''session_token'' = Some ''sess_aa''"
    by (simp add: alice_req_def)
  have b1: "cookies bob_req ''session_token'' = None"
           "headers bob_req ''Authorization'' = Some (''Bearer '' @ ''sess_bb'')"
    by (simp_all add: bob_req_def)
  have n1: "cookies anonymous_req ''session_token'' = None"
           "headers anonymous_req ''Authorization'' = None"
    by (simp_all add: anonymous_req_def)
  have e1: "\<not> (\<exists>s \<in> set (sessions demo_db). session_token s = ''sess_aa'' \<and> 2000 < expires_at s)"
    by (simp add: demo_db_def)
  let ?bc = "BotCreate_init ''Bot1'' ''grid'' ''BTC/USDT'' ''binance'' None None None"
  let ?bu = "\<lparr>bu_name = Some ''Mine'', bu_status = None, bu_settings = None\<rparr>"
  note ta = protected_requires_session[where req = alice_req and db = demo_db and now = 2000
      and body_data = None and u = uuid_a and bot_data = ?bc and bid = "''bot_1''" and d = ?bu]
  note tb = protected_requires_session[where req = bob_req and db = demo_db and now = 10
      and body_data = None and u = uuid_a and bot_data = ?bc and bid = "''bot_1''" and d = ?bu]
  note tn = protected_requires_session[where req = anonymous_req and db = demo_db and now = 10
      and body_data = None and u = uuid_a and bot_data = ?bc and bid = "''bot_1''" and d = ?bu]
  have a2: "get_session_token alice_req = Some ''sess_aa''"
    using ta a1 by simp
  have b2: "get_session_token bob_req = Some ''sess_bb''"
    using tb b1 by (simp add: startswith_def)
  have n2: "get_session_token anonymous_req = None"
    using tn n1 by simp
  have n0: "get_current_user demo_db 10 anonymous_req = Inl (HTTPException 401 ''Not authenticated'')"
    using tn n2 by simp
  have n3: "get_me 10 demo_db anonymous_req = (demo_db, Inl (HTTPException 401 ''Not authenticated''))"
    using tn n0 by simp
  have n4: "route_update_bot 10 demo_db anonymous_req ''bot_1'' (Some ?bu) =
     (demo_db, Inl (HandlerError (HTTPException 401 ''Not authenticated'')))"
    using tn n0 by simp
  have n5: "route_create_bot uuid_a 10 demo_db anonymous_req (Some ?bc) =
     (demo_db, Inl (HandlerError (HTTPException 401 ''Not authenticated'')))"
    using tn n0 by simp
  have a3: "get_bot 2000 demo_db alice_req ''bot_1'' =
     (demo_db, Inl (HTTPException 401 ''Invalid or expired session''))"
    using ta a2 e1 by simp
  have a4: "route_create_bot uuid_a 2000 demo_db alice_req None = (demo_db, Inl RequestValidationError)"
    using ta by blast
  show ?thesis
    using a1 a2 b1 b2 n2 n3 e1 a3 n4 n5 a4 by simp
qed

text \<open>
  Claim C8 as stated has the header read only when the cookie is absent, and has every
  request without a token refused with 401. A request whose cookie is present with the
  empty value is authenticated through its header; and a request to \<open>POST /api/bots\<close> or
  \<open>PUT /api/bots/{bot_id}\<close> without any token and with a body that fails validation is
  answered with 422, not with 401.
\<close>

theorem protected_request_counterexample:
  "cookies empty_cookie_req ''session_token'' = Some [] \<and>
   get_session_token empty_cookie_req = Some ''sess_aa'' \<and>
   get_me 10 demo_db empty_cookie_req = (demo_db, Inr (public_user alice)) \<and>
   get_session_token anonymous_req = None \<and>
   route_create_bot uuid_a 10 demo_db anonymous_req None = (demo_db, Inl RequestValidationError) \<and>
   route_update_bot 10 demo_db anonymous_req ''bot_1'' None = (demo_db, Inl RequestValidationError) \<and>
   status_code RequestValidationError = 422"
proof -
  have t: "get_session_token empty_cookie_req = Some ''sess_aa''"
    by (simp add: get_session_token_def empty_cookie_req_def startswith_def)
  have "get_current_user demo_db 10 empty_cookie_req = Inr alice"
    by (simp add: get_current_user_def t session_users_def demo_db_def alice_def bob_def)
  then have g: "get_me 10 demo_db empty_cookie_req = (demo_db, Inr (public_user alice))"
    by (simp add: get_me_def)
  have n: "get_session_token anonymous_req = None"
    by (simp add: get_session_token_def anonymous_req_def)
  show ?thesis
    using t g n by (simp add: empty_cookie_req_def route_create_bot_def route_update_bot_def)
qed

section \<open>Completing the onboarding\<close>

lemma join_inner_map:
  "concat (map (\<lambda>s. if P s then [g u] else []) ss) =
   map g (concat (map (\<lambda>s. if P s then [u] else []) ss))"
  by (induction ss) simp_all

lemma session_users_map_users:
  assumes "\<And>u. user_id (g u) = user_id u"
  shows "session_users (db\<lparr>users := map g (users db)\<rparr>) now tok = map g (session_users db now tok)"
proof -
  have "concat (map (\<lambda>u. concat (map (\<lambda>s. if user_id u = sess_user_id s \<and> session_token s = tok \<and>
                                             now < expires_at s then [u] else []) ss)) (map g us)) =
        map g (concat (map (\<lambda>u. concat (map (\<lambda>s. if user_id u = sess_user_id s \<and> session_token s = tok \<and>
                                             now < expires_at s then [u] else []) ss)) us))" for us ss
  proof (induction us)
    case Nil
    show ?case by simp
  next
    case (Cons a us)
    have "concat (map (\<lambda>s. if user_id a = sess_user_id s \<and> session_token s = tok \<and>
                                now < expires_at s then [g a] else []) ss) =
          map g (concat (map (\<lambda>s. if user_id a = sess_user_id s \<and> session_token s = tok \<and>
                                now < expires_at s then [a] else []) ss))"
      by (rule join_inner_map)
    with Cons show ?case by (simp add: assms)
  qed
  then show ?thesis
    by (simp add: session_users_def)
qed

lemma get_current_user_map_users:
  assumes keep: "\<And>u. user_id (g u) = user_id u"
      and auth: "get_current_user db now req = Inr user"
  shows "get_current_user (db\<lparr>users := map g (users db)\<rparr>) now req = Inr (g user)"
  using auth
  by (auto simp: get_current_user_def session_users_map_users[OF keep] fetchone_map
        split: option.splits if_splits)

lemma map_of_jsonb_concat:
  "map_of (jsonb_concat l [(k, v)]) = (map_of l)(k \<mapsto> v)"
  by (simp add: jsonb_concat_def update_conv')

lemma complete_onboarding_auth:
  assumes auth: "get_current_user db now req = Inr user"
  shows "complete_onboarding now db req body_data =
           (db\<lparr>users := map (\<lambda>u. if user_id u = user_id user
                    then u\<lparr>onboarding_completed := True,
                           settings := jsonb_concat (settings u)
                             [(''onboarding'', case body_data of None \<Rightarrow> JObj [] | Some v \<Rightarrow> v)]\<rparr>
                    else u) (users db)\<rparr>,
            Inr (''Onboarding completed'', True))"
  using auth by (simp add: complete_onboarding_def sql_update_def Let_def)

text \<open>
  Claim C7. For an authenticated user, \<open>complete_onboarding\<close> succeeds; the user resolved
  afterwards is the same row with \<open>onboarding_completed\<close> true and \<open>settings\<close> merged with
  \<open>{"onboarding": payload}\<close>, so that the key \<open>onboarding\<close> holds the payload and every other key
  holds what it held. After a second call the key \<open>onboarding\<close> holds the second payload and
  the other keys are still those of the beginning. The rows of other users, the sessions
  and the bots are as before. The payload is the \<open>data\<close> entry of the body, or the empty
  object when the body has none.
\<close>

theorem complete_onboarding_merges:
  assumes auth1: "get_current_user db t1 req = Inr user"
      and auth2: "get_current_user db t2 req = Inr user"
      and p1: "p1 = (case body1 of None \<Rightarrow> JObj [] | Some v \<Rightarrow> v)"
      and p2: "p2 = (case body2 of None \<Rightarrow> JObj [] | Some v \<Rightarrow> v)"
  shows "\<exists>db1 db2 u1 u2.
           complete_onboarding t1 db req body1 = (db1, Inr (''Onboarding completed'', True)) \<and>
           get_current_user db1 t1 req = Inr u1 \<and>
           u1 = user\<lparr>onboarding_completed := True,
                     settings := jsonb_concat (settings user) [(''onboarding'', p1)]\<rparr> \<and>
           onboarding_completed u1 \<and>
           map_of (settings u1) = (map_of (settings user))(''onboarding'' \<mapsto> p1) \<and>
           complete_onboarding t2 db1 req body2 = (db2, Inr (''Onboarding completed'', True)) \<and>
           get_current_user db2 t2 req = Inr u2 \<and>
           u2 = u1\<lparr>onboarding_completed := True,
                   settings := jsonb_concat (settings u1) [(''onboarding'', p2)]\<rparr> \<and>
           user_id u2 = user_id user \<and> email u2 = email user \<and> name u2 = name user \<and>
           picture u2 = picture user \<and>
           onboarding_completed u2 \<and>
           map_of (settings u2) = (map_of (settings user))(''onboarding'' \<mapsto> p2) \<and>
           filter (\<lambda>u. user_id u \<noteq> user_id user) (users db2) =
             filter (\<lambda>u. user_id u \<noteq> user_id user) (users db) \<and>
           sessions db2 = sessions db \<and> bots db2 = bots db"
proof -
  let ?g = "\<lambda>p u. if user_id u = user_id user
                   then u\<lparr>onboarding_completed := True,
                          settings := jsonb_concat (settings u) [(''onboarding'', p)]\<rparr>
                   else u"
  let ?db1 = "db\<lparr>users := map (?g p1) (users db)\<rparr>"
  let ?db2 = "?db1\<lparr>users := map (?g p2) (users ?db1)\<rparr>"
  have keep: "user_id (?g p u) = user_id u" for p u by simp
  have r1: "complete_onboarding t1 db req body1 = (?db1, Inr (''Onboarding completed'', True))"
    unfolding p1 by (rule complete_onboarding_auth[OF auth1])
  have g1: "get_current_user ?db1 t req = Inr (?g p1 user)"
    if "get_current_user db t req = Inr user" for t
    using that by (rule get_current_user_map_users[OF keep])
  have uid1: "user_id (?g p1 user) = user_id user" by simp
  have r2: "complete_onboarding t2 ?db1 req body2 = (?db2, Inr (''Onboarding completed'', True))"
    unfolding p2 using complete_onboarding_auth[OF g1[OF auth2], of body2] by (simp only: uid1)
  have g2: "get_current_user ?db2 t2 req = Inr (?g p2 (?g p1 user))"
    using g1[OF auth2] by (rule get_current_user_map_users[OF keep])
  have m1: "map_of (settings (?g p1 user)) = (map_of (settings user))(''onboarding'' \<mapsto> p1)"
    by (simp add: map_of_jsonb_concat)
  have m2: "map_of (settings (?g p2 (?g p1 user))) = (map_of (settings user))(''onboarding'' \<mapsto> p2)"
    by (simp add: map_of_jsonb_concat)
  have others: "filter (\<lambda>u. user_id u \<noteq> user_id user) (users ?db2) =
                filter (\<lambda>u. user_id u \<noteq> user_id user) (users db)"
  proof -
    have "filter (\<lambda>u. user_id u \<noteq> user_id user) (map (?g p2) (map (?g p1) t)) =
          filter (\<lambda>u. user_id u \<noteq> user_id user) t" for t
      by (induction t) simp_all
    then show ?thesis by simp
  qed
  show ?thesis
  proof (intro exI conjI)
    show "complete_onboarding t1 db req body1 = (?db1, Inr (''Onboarding completed'', True))"
      by (rule r1)
    show "get_current_user ?db1 t1 req = Inr (?g p1 user)" by (rule g1[OF auth1])
    show "complete_onboarding t2 ?db1 req body2 = (?db2, Inr (''Onboarding completed'', True))"
      by (rule r2)
    show "get_current_user ?db2 t2 req = Inr (?g p2 (?g p1 user))" by (rule g2)
    show "map_of (settings (?g p1 user)) = (map_of (settings user))(''onboarding'' \<mapsto> p1)"
      by (rule m1)
    show "map_of (settings (?g p2 (?g p1 user))) = (map_of (settings user))(''onboarding'' \<mapsto> p2)"
      by (rule m2)
    show "filter (\<lambda>u. user_id u \<noteq> user_id user) (users ?db2) =
          filter (\<lambda>u. user_id u \<noteq> user_id user) (users db)"
      by (rule others)
  qed simp_all
qed

theorem complete_onboarding_merges_witness:
  "get_current_user demo_db 10 alice_req = Inr alice \<and>
   get_current_user demo_db 20 alice_req = Inr alice \<and>
   get_current_user
     (fst (complete_onboarding 20
        (fst (complete_onboarding 10 demo_db alice_req (Some (JObj [(''risk'', JStr ''low'')]))))
        alice_req (Some (JStr ''skipped''))))
     20 alice_req =
   Inr (alice\<lparr>onboarding_completed := True,
              settings := [(''theme'', JStr ''dark''), (''onboarding'', JStr ''skipped'')]\<rparr>)"
proof -
  have a: "get_current_user demo_db 10 alice_req = Inr alice"
          "get_current_user demo_db 20 alice_req = Inr alice"
    by (simp_all add: auth_alice_at)
  from complete_onboarding_merges[OF a, of "JObj [(''risk'', JStr ''low'')]"
      "Some (JObj [(''risk'', JStr ''low'')])" "JStr ''skipped''" "Some (JStr ''skipped'')"]
  obtain db1 db2 u1 u2 where
    c1: "complete_onboarding 10 demo_db alice_req (Some (JObj [(''risk'', JStr ''low'')])) =
           (db1, Inr (''Onboarding completed'', True))" and
    u1: "u1 = alice\<lparr>onboarding_completed := True,
                settings := jsonb_concat (settings alice) [(''onboarding'', JObj [(''risk'', JStr ''low'')])]\<rparr>" and
    c2: "complete_onboarding 20 db1 alice_req (Some (JStr ''skipped'')) =
           (db2, Inr (''Onboarding completed'', True))" and
    g2: "get_current_user db2 20 alice_req = Inr u2" and
    u2: "u2 = u1\<lparr>onboarding_completed := True,
                settings := jsonb_concat (settings u1) [(''onboarding'', JStr ''skipped'')]\<rparr>"
    by auto
  have "u2 = alice\<lparr>onboarding_completed := True,
              settings := [(''theme'', JStr ''dark''), (''onboarding'', JStr ''skipped'')]\<rparr>"
    unfolding u2 u1 by (simp add: alice_def jsonb_concat_def AList.merge_def)
  then show ?thesis
    using a c1 c2 g2 by simp
qed

section \<open>Issuing and resolving a session\<close>

lemma sql_eq_eq: "sql_eq a b \<Longrightarrow> a = b"
  by (auto simp: sql_eq_def split: option.splits)

lemma fetchone_filter_Some: "fetchone (filter P t) = Some r \<Longrightarrow> r \<in> set t \<and> P r"
  using fetchone_Some_mem[of "filter P t" r] by simp

text \<open>What \<open>upsert_user\<close> returns: a row of the new table with the email of the exchange; user
  ids stay distinct when the id drawn for a new user is not in the table.\<close>

lemma upsert_user_row:
  assumes "upsert_user u1 d t = (t', user)"
  shows "user \<in> set t'" and "email user = ad_email d"
proof -
  let ?P = "\<lambda>u. sql_eq (email u) (ad_email d)"
  let ?f = "\<lambda>u::user_row. u\<lparr>name := ad_name d, picture := ad_picture d\<rparr>"
  show "user \<in> set t'"
  proof (cases "fetchone (filter ?P t)")
    case None
    with assms show ?thesis
      by (auto simp: upsert_user_def sql_select_def sql_insert_def Let_def)
  next
    case (Some found)
    then have f: "found \<in> set t" "?P found" using fetchone_filter_Some by fast+
    from assms Some have "t' = map (\<lambda>u. if ?P u then ?f u else u) t" "user = ?f found"
      by (auto simp: upsert_user_def sql_select_def sql_update_def)
    with f show ?thesis by force
  qed
  show "email user = ad_email d"
  proof (cases "fetchone (filter ?P t)")
    case None
    with assms show ?thesis
      by (auto simp: upsert_user_def sql_select_def sql_insert_def Let_def new_user_row_def)
  next
    case (Some found)
    then have f: "?P found" using fetchone_filter_Some by fast
    from assms Some have "user = ?f found"
      by (auto simp: upsert_user_def sql_select_def sql_update_def)
    with sql_eq_eq[OF f] show ?thesis by simp
  qed
qed

lemma upsert_user_ids:
  assumes "upsert_user u1 d t = (t', user)"
      and "distinct (map user_id t)"
      and "''user_'' @ take 12 (uuid_hex u1) \<notin> user_id ` set t"
  shows "distinct (map user_id t')"
proof (cases "fetchone (filter (\<lambda>u. sql_eq (email u) (ad_email d)) t)")
  case None
  with assms show ?thesis
    by (auto simp: upsert_user_def sql_select_def sql_insert_def Let_def new_user_row_def)
next
  case (Some found)
  with assms(1) have "map user_id t' = map user_id t"
    by (auto simp: upsert_user_def sql_select_def sql_update_def)
  with assms(2) show ?thesis by simp
qed

lemma issue_session_eq:
  assumes "upsert_user u1 d (users db) = (t', user)"
  shows "issue_session u1 u2 u3 now db d =
           (db\<lparr>users := t',
               sessions := filter (\<lambda>s. sess_user_id s \<noteq> user_id user) (sessions db) @
                 [\<lparr> session_id = uuid_str u3, sess_user_id = user_id user,
                    session_token = ''sess_'' @ uuid_hex u2, expires_at = now + seven_days \<rparr>]\<rparr>,
            \<lparr> sr_user = public_user user, sr_session_token = ''sess_'' @ uuid_hex u2,
              sr_set_cookie = session_cookie (''sess_'' @ uuid_hex u2) \<rparr>)"
  using assms by (simp add: issue_session_def sql_delete_def sql_insert_def Let_def)

lemma create_session_resolved:
  assumes "sid \<noteq> []" and "resolve_identity exch sid = Inr d"
      and "upsert_user u1 d (users db) = (t', user)"
  shows "create_session exch u1 u2 u3 now db (Some sid) =
           (db\<lparr>users := t',
               sessions := filter (\<lambda>s. sess_user_id s \<noteq> user_id user) (sessions db) @
                 [\<lparr> session_id = uuid_str u3, sess_user_id = user_id user,
                    session_token = ''sess_'' @ uuid_hex u2, expires_at = now + seven_days \<rparr>]\<rparr>,
            Inr \<lparr> sr_user = public_user user, sr_session_token = ''sess_'' @ uuid_hex u2,
              sr_set_cookie = session_cookie (''sess_'' @ uuid_hex u2) \<rparr>)"
  using assms(1,2) by (simp add: create_session_def issue_session_eq[OF assms(3)])

lemma resolve_identity_Inr:
  "resolve_identity exch sid = Inr d \<longleftrightarrow>
     (sid = ''test_session_id'' \<and> d = test_auth_data) \<or>
     (sid \<noteq> ''test_session_id'' \<and> exch sid = ExchangeResponse 200 d)"
  by (auto simp: resolve_identity_def split: exchange_result.splits)

text \<open>A list whose elements are all \<open>x\<close> and which is not empty starts with \<open>x\<close>.\<close>

lemma fetchone_singleton_set: "set rows = {x} \<Longrightarrow> fetchone rows = Some x"
  by (cases rows) auto

text \<open>
  Claim C1. User ids identify rows of \<open>users\<close>, and the uuids drawn for a new user id and for
  the token are not in the store yet. For an external session id that the exchange answers
  with status 200 and the data \<open>d\<close>, or the sentinel id with the test identity,
  \<open>create_session\<close> succeeds, and every request that carries the returned token before
  \<open>now + 7 days\<close> resolves to a user whose email is the email of \<open>d\<close>; it is the user returned
  with the token.
\<close>

theorem session_round_trip:
  assumes ident: "(sid = ''test_session_id'' \<and> d = test_auth_data) \<or>
                  (sid \<noteq> ''test_session_id'' \<and> sid \<noteq> [] \<and> exch sid = ExchangeResponse 200 d)"
      and key: "distinct (map user_id (users db))"
      and fresh_user: "''user_'' @ take 12 (uuid_hex u1) \<notin> user_id ` set (users db)"
      and fresh_token: "''sess_'' @ uuid_hex u2 \<notin> session_token ` set (sessions db)"
  shows "\<exists>db' r user.
           create_session exch u1 u2 u3 now db (Some sid) = (db', Inr r) \<and>
           sr_session_token r = ''sess_'' @ uuid_hex u2 \<and>
           up_email (sr_user r) = ad_email d \<and>
           email user = ad_email d \<and> public_user user = sr_user r \<and>
           (\<forall>req t. get_session_token req = Some (sr_session_token r) \<and> t < now + seven_days \<longrightarrow>
                    get_current_user db' t req = Inr user)"
proof -
  obtain t' user where up: "upsert_user u1 d (users db) = (t', user)"
    by (cases "upsert_user u1 d (users db)") auto
  let ?tok = "''sess_'' @ uuid_hex u2"
  let ?new = "\<lparr> session_id = uuid_str u3, sess_user_id = user_id user,
                session_token = ?tok, expires_at = now + seven_days \<rparr>"
  let ?db' = "db\<lparr>users := t',
                 sessions := filter (\<lambda>s. sess_user_id s \<noteq> user_id user) (sessions db) @ [?new]\<rparr>"
  let ?r = "\<lparr> sr_user = public_user user, sr_session_token = ?tok,
              sr_set_cookie = session_cookie ?tok \<rparr>"
  from ident have sid: "sid \<noteq> []" by auto
  from ident have res: "resolve_identity exch sid = Inr d"
    by (auto simp: resolve_identity_Inr)
  have cs: "create_session exch u1 u2 u3 now db (Some sid) = (?db', Inr ?r)"
    by (rule create_session_resolved[OF sid res up])
  have mem: "user \<in> set t'" and em: "email user = ad_email d"
    using upsert_user_row[OF up] by simp_all
  have ids: "distinct (map user_id t')"
    by (rule upsert_user_ids[OF up key fresh_user])
  have uniq: "u = user" if "u \<in> set t'" "user_id u = user_id user" for u
    using that mem ids by (meson distinct_map inj_onD)
  have no: "session_token s \<noteq> ?tok" if "s \<in> set (sessions db)" for s
    using that fresh_token by force
  have resolve: "get_current_user ?db' t req = Inr user"
    if tk: "get_session_token req = Some ?tok" and early: "t < now + seven_days" for req t
  proof -
    have "set (session_users ?db' t ?tok) = {user}"
    proof
      show "set (session_users ?db' t ?tok) \<subseteq> {user}"
        using no uniq by (auto simp: session_users_set)
      show "{user} \<subseteq> set (session_users ?db' t ?tok)"
        using mem early by (auto simp: session_users_set)
    qed
    then have "fetchone (session_users ?db' t ?tok) = Some user"
      by (rule fetchone_singleton_set)
    then show ?thesis
      using tk by (simp add: get_current_user_def)
  qed
  show ?thesis
  proof (intro exI conjI)
    show "create_session exch u1 u2 u3 now db (Some sid) = (?db', Inr ?r)" by (rule cs)
    show "email user = ad_email d" by (rule em)
    show "up_email (sr_user ?r) = ad_email d" using em by (simp add: public_user_def)
    show "\<forall>req t. get_session_token req = Some (sr_session_token ?r) \<and> t < now + seven_days \<longrightarrow>
                  get_current_user ?db' t req = Inr user"
      using resolve by simp
  qed simp_all
qed

theorem session_round_trip_witness:
  "distinct (map user_id (users demo_db)) \<and>
   ''user_'' @ take 12 (uuid_hex uuid_a) \<notin> user_id ` set (users demo_db) \<and>
   ''sess_'' @ uuid_hex uuid_b \<notin> session_token ` set (sessions demo_db) \<and>
   get_session_token token_b_req = Some (''sess_'' @ uuid_hex uuid_b) \<and>
   (200::int) < 100 + seven_days \<and>
   (\<exists>user. get_current_user
              (fst (create_session demo_exchange uuid_a uuid_b uuid_c 100 demo_db
                      (Some ''test_session_id'')))
              200 token_b_req = Inr user \<and>
           email user = Some ''test@tensorx.com'') \<and>
   (\<exists>user. get_current_user
              (fst (create_session demo_exchange uuid_a uuid_b uuid_c 100 demo_db
                      (Some ''ext-alice'')))
              200 token_b_req = Inr user \<and>
           email user = Some ''alice@example.com'')"
proof -
  have h1: "distinct (map user_id (users demo_db))"
    by (simp add: demo_db_def alice_def bob_def)
  have h2: "''user_'' @ take 12 (uuid_hex uuid_a) \<notin> user_id ` set (users demo_db)"
    by (simp add: demo_db_def alice_def bob_def uuid_hex_def uuid_a_def)
  have h3: "''sess_'' @ uuid_hex uuid_b \<notin> session_token ` set (sessions demo_db)"
    by (simp add: demo_db_def uuid_hex_def uuid_b_def)
  have h4: "get_session_token token_b_req = Some (''sess_'' @ uuid_hex uuid_b)"
    by (simp add: get_session_token_def token_b_req_def uuid_hex_def uuid_b_def)
  have h5: "(200::int) < 100 + seven_days"
    by (simp add: seven_days_def)
  have i1: "(''test_session_id'' = ''test_session_id'' \<and> test_auth_data = test_auth_data) \<or>
            (''test_session_id'' \<noteq> ''test_session_id'' \<and> ''test_session_id'' \<noteq> [] \<and>
             demo_exchange ''test_session_id'' = ExchangeResponse 200 test_auth_data)"
    by simp
  let ?alice = "\<lparr> ad_email = Some ''alice@example.com'', ad_name = Some ''Alice A.'',
                  ad_picture = None \<rparr>"
  have i2: "(''ext-alice'' = ''test_session_id'' \<and> ?alice = test_auth_data) \<or>
            (''ext-alice'' \<noteq> ''test_session_id'' \<and> ''ext-alice'' \<noteq> [] \<and>
             demo_exchange ''ext-alice'' = ExchangeResponse 200 ?alice)"
    by (simp add: demo_exchange_def)
  from session_round_trip[where sid = "''test_session_id''" and d = test_auth_data
      and exch = demo_exchange and ?u3.0 = uuid_c and now = 100, OF i1 h1 h2 h3] h4 h5
  have w1: "\<exists>user. get_current_user
              (fst (create_session demo_exchange uuid_a uuid_b uuid_c 100 demo_db
                      (Some ''test_session_id'')))
              200 token_b_req = Inr user \<and>
           email user = Some ''test@tensorx.com''"
    by (auto simp: test_auth_data_def)
  from session_round_trip[where sid = "''ext-alice''" and d = ?alice
      and exch = demo_exchange and ?u3.0 = uuid_c and now = 100, OF i2 h1 h2 h3] h4 h5
  have w2: "\<exists>user. get_current_user
              (fst (create_session demo_exchange uuid_a uuid_b uuid_c 100 demo_db
                      (Some ''ext-alice'')))
              200 token_b_req = Inr user \<and>
           email user = Some ''alice@example.com''"
    by auto
  show ?thesis
    using h1 h2 h3 h4 h5 w1 w2 by (intro conjI)
qed

section \<open>One session per user\<close>



text \<open>What the handlers do to the \<open>sessions\<close> table.\<close>

lemma sessions_update_scoped [simp]: "sessions (fst (update_scoped db bid uid f)) = sessions db"
  by (simp add: update_scoped_eq)

lemma sessions_unchanged [simp]:
  "sessions (fst (get_me now db req)) = sessions db"
  "sessions (fst (complete_onboarding now db req body_data)) = sessions db"
  "sessions (fst (get_bots now db req)) = sessions db"
  "sessions (fst (create_bot u now db req bot_data)) = sessions db"
  "sessions (fst (get_bot now db req bid)) = sessions db"
  "sessions (fst (update_bot now db req bid d)) = sessions db"
  "sessions (fst (delete_bot now db req bid)) = sessions db"
  "sessions (fst (start_bot now db req bid)) = sessions db"
  "sessions (fst (stop_bot now db req bid)) = sessions db"
  by (simp_all add: get_me_def complete_onboarding_def get_bots_def create_bot_def get_bot_def
        update_bot_def delete_bot_def start_bot_def stop_bot_def Let_def
        split: sum.splits option.splits prod.splits)












end
